theory Spec2Isabelle
  imports Complex_Main
begin

section \<open>Data model\<close>

text \<open>
  The program is one script, \<^verbatim>\<open>jensen_streamlit.py\<close>. Its numbers are float64; they are
  idealised here as reals, and a float64 NaN (a missing cell of a pandas column) is
  \<open>None\<close>. A pandas Series is the list of its (index label, value) rows in index order.
  Prices are the provider's adjusted closes: positive numbers, one per date.

  Two places keep more of float64. A quotient whose divisor can be zero has the type
  \<open>float64\<close>: a number, or \<open>Not_finite\<close> for any of NaN, inf and -inf. And \<^verbatim>\<open>round\<close>,
  whose result jumps at a tie, takes the float64 rounding of a product or quotient as a
  parameter instead of assuming it away.
\<close>

datatype float64 = Finite real | Not_finite

type_synonym date = int

type_synonym cell = "real option"

type_synonym 'a series = "(date \<times> 'a) list"

text \<open>Exceptions that the script's \<^verbatim>\<open>try\<close> block can see, and Python's \<^verbatim>\<open>str(e)\<close>.\<close>

datatype exn =
    ValueError string
  | KeyError string
  | ProviderError string

fun str :: "exn \<Rightarrow> string" where
  "str (ValueError msg) = msg"
| "str (KeyError k) = [CHR 0x27] @ k @ [CHR 0x27]"
| "str (ProviderError msg) = msg"


section \<open>Return transformer (lines 55-62)\<close>

text \<open>
  \<^verbatim>\<open>Series.pct_change()\<close> is \<^verbatim>\<open>s / s.shift(1) - 1\<close>: the first row has no predecessor
  and is NaN. The quotient is the real one, so the model is meant for non-zero prices
  (for a zero price float64 gives inf or NaN, which a real does not represent).
\<close>

fun pct_from :: "real \<Rightarrow> real series \<Rightarrow> cell series" where
  "pct_from prev [] = []"
| "pct_from prev ((d, p) # rest) = (d, Some (p / prev - 1)) # pct_from p rest"

fun pct_change :: "real series \<Rightarrow> cell series" where
  "pct_change [] = []"
| "pct_change ((d, p) # rest) = (d, None) # pct_from p rest"

text \<open>\<^verbatim>\<open>data['Return'] = data['Adj Close'].pct_change() * 100\<close>; NaN stays NaN.\<close>

definition Return :: "real series \<Rightarrow> cell series" where
  "Return adj_close = map (\<lambda>(d, c). (d, map_option (\<lambda>v. v * 100) c)) (pct_change adj_close)"

text \<open>
  \<^verbatim>\<open>pd.DataFrame({"Stock_Return": s, "Market_Return": m})\<close> aligns the two columns on the
  union of their indexes (kept as it is when both indexes are the same, sorted
  otherwise); a label that a column lacks gets NaN there.
\<close>

definition index_union :: "date list \<Rightarrow> date list \<Rightarrow> date list" where
  "index_union a b = (if a = b then a else sort (remdups (a @ b)))"

definition cell_at :: "cell series \<Rightarrow> date \<Rightarrow> cell" where
  "cell_at s d = (case map_of s d of None \<Rightarrow> None | Some c \<Rightarrow> c)"

definition DataFrame :: "cell series \<Rightarrow> cell series \<Rightarrow> (date \<times> cell \<times> cell) list" where
  "DataFrame stock market =
     map (\<lambda>d. (d, cell_at stock d, cell_at market d))
         (index_union (map fst stock) (map fst market))"

text \<open>\<^verbatim>\<open>.dropna()\<close> keeps the rows with no NaN.\<close>

fun dropna :: "(date \<times> cell \<times> cell) list \<Rightarrow> (date \<times> real \<times> real) list" where
  "dropna [] = []"
| "dropna ((d, Some s, Some m) # rows) = (d, s, m) # dropna rows"
| "dropna (_ # rows) = dropna rows"

definition returns_df :: "cell series \<Rightarrow> cell series \<Rightarrow> (date \<times> real \<times> real) list" where
  "returns_df stock_return market_return = dropna (DataFrame stock_return market_return)"

definition Stock_Return :: "(date \<times> real \<times> real) list \<Rightarrow> real list" where
  "Stock_Return df = map (\<lambda>(d, s, m). s) df"

definition Market_Return :: "(date \<times> real \<times> real) list \<Rightarrow> real list" where
  "Market_Return df = map (\<lambda>(d, s, m). m) df"

definition index :: "(date \<times> real \<times> real) list \<Rightarrow> date list" where
  "index df = map fst df"


section \<open>Excess return regressor (lines 65-71)\<close>

definition risk_free_rate_monthly :: "real \<Rightarrow> real" where
  "risk_free_rate_monthly risk_free_rate = (1 + risk_free_rate / 100) powr (1 / 12) - 1"

definition X :: "real \<Rightarrow> (date \<times> real \<times> real) list \<Rightarrow> real list" where
  "X risk_free_rate df = map (\<lambda>v. v - risk_free_rate_monthly risk_free_rate * 100) (Market_Return df)"

definition y :: "real \<Rightarrow> (date \<times> real \<times> real) list \<Rightarrow> real list" where
  "y risk_free_rate df = map (\<lambda>v. v - risk_free_rate_monthly risk_free_rate * 100) (Stock_Return df)"

subsection \<open>The statsmodels calls\<close>

text \<open>
  Library model (statsmodels \<^verbatim>\<open>add_constant\<close>, default \<^verbatim>\<open>has_constant='skip'\<close>): a column
  of ones named \<^verbatim>\<open>const\<close> is put in front, unless the data already has a column that is
  constant and not zero (\<^verbatim>\<open>np.ptp(s) == 0.0 and np.any(s != 0.0)\<close>; on an empty column
  \<^verbatim>\<open>np.ptp\<close> raises and the test counts as false), in which case the data comes back as
  it is.
\<close>

datatype exog =
    Const_and_x "real list"
  | Only_x "real list"

definition ptp :: "real list \<Rightarrow> real" where
  "ptp x = Max (set x) - Min (set x)"

definition add_constant :: "real list \<Rightarrow> exog" where
  "add_constant x =
     (if x \<noteq> [] \<and> ptp x = 0 \<and> (\<exists>v\<in>set x. v \<noteq> 0) then Only_x x else Const_and_x x)"

definition mean :: "real list \<Rightarrow> real" where
  "mean v = sum_list v / real (length v)"

definition dot :: "real list \<Rightarrow> real list \<Rightarrow> real" where
  "dot u v = sum_list (map2 (\<lambda>a b. a * b) u v)"

definition centred :: "real list \<Rightarrow> real list" where
  "centred v = map (\<lambda>a. a - mean v) v"

text \<open>
  Library model (statsmodels \<^verbatim>\<open>OLS(endog, exog).fit()\<close>, default method \<^verbatim>\<open>pinv\<close>): the
  parameters are \<open>pinv(exog) endog\<close>, the least-squares solution of least norm. For
  the design (ones, x) with x not constant that is the textbook pair
  slope = Sxy / Sxx, intercept = mean y - slope * mean x; with x constant (value c) the
  design has rank one and the least-norm solution is (mean y / (1 + c * c)) (1, c). For the
  design (x) alone the slope is x.y / x.x, and 0 when x is 0.
\<close>

definition pinv_const_x :: "real list \<Rightarrow> real list \<Rightarrow> real \<times> real" where
  "pinv_const_x x endog =
     (if dot (centred x) (centred x) = 0
      then (let c = hd x; t = mean endog / (1 + c * c) in (t, t * c))
      else (let slope = dot (centred x) (centred endog) / dot (centred x) (centred x)
            in (mean endog - slope * mean x, slope)))"

definition pinv_x :: "real list \<Rightarrow> real list \<Rightarrow> real" where
  "pinv_x x endog = (if dot x x = 0 then 0 else dot x endog / dot x x)"

text \<open>
  \<^verbatim>\<open>rsquared\<close> is \<^verbatim>\<open>1 - ssr / centered_tss\<close> (both designs contain a constant column,
  so statsmodels uses the centred total sum of squares). With constant \<open>endog\<close> the
  total sum of squares is 0 and the float quotient divides by zero: the result is NaN
  when \<^verbatim>\<open>ssr\<close> is exactly 0 and -inf when rounding has left a residue in it. Either way it
  is no number, which is all the model says there.
\<close>

definition ssr :: "real list \<Rightarrow> real list \<Rightarrow> real" where
  "ssr endog fitted = sum_list (map2 (\<lambda>a f. (a - f)\<^sup>2) endog fitted)"

definition centered_tss :: "real list \<Rightarrow> real" where
  "centered_tss endog = sum_list (map (\<lambda>a. (a - mean endog)\<^sup>2) endog)"

definition rsquared_of :: "real list \<Rightarrow> real list \<Rightarrow> float64" where
  "rsquared_of endog fitted =
     (if centered_tss endog = 0 then Not_finite
      else Finite (1 - ssr endog fitted / centered_tss endog))"

record regression_results =
  params :: "(string \<times> real) list"
  rsquared :: float64

text \<open>
  \<^verbatim>\<open>sm.OLS\<close> raises on data with no rows (\<^verbatim>\<open>np.max\<close> of a zero-size array, in the check
  for a constant column).
\<close>

definition OLS_fit :: "real list \<Rightarrow> exog \<Rightarrow> exn + regression_results" where
  "OLS_fit endog ex =
     (case ex of
        Const_and_x x \<Rightarrow>
          if x = [] then Inl (ValueError ''zero-size array to reduction operation maximum which has no identity'')
          else (let (a, b) = pinv_const_x x endog
                in Inr \<lparr>params = [(''const'', a), (''Market_Return'', b)],
                        rsquared = rsquared_of endog (map (\<lambda>v. a + b * v) x)\<rparr>)
      | Only_x x \<Rightarrow>
          if x = [] then Inl (ValueError ''zero-size array to reduction operation maximum which has no identity'')
          else (let b = pinv_x x endog
                in Inr \<lparr>params = [(''Market_Return'', b)],
                        rsquared = rsquared_of endog (map (\<lambda>v. b * v) x)\<rparr>))"

text \<open>Lines 68-71: the model fitted by the script.\<close>

definition model :: "real \<Rightarrow> (date \<times> real \<times> real) list \<Rightarrow> exn + regression_results" where
  "model risk_free_rate df = OLS_fit (y risk_free_rate df) (add_constant (X risk_free_rate df))"

text \<open>\<^verbatim>\<open>model.params[name]\<close>: a label that is not in the index raises KeyError.\<close>

definition getitem :: "(string \<times> real) list \<Rightarrow> string \<Rightarrow> exn + real" where
  "getitem ps name = (case map_of ps name of None \<Rightarrow> Inl (KeyError name) | Some v \<Rightarrow> Inr v)"

text \<open>
  Lines 79-80 (and again 89-90): Beta is read first, then Jensen's Alpha.
\<close>

definition coefficients :: "regression_results \<Rightarrow> exn + (real \<times> real)" where
  "coefficients m =
     (case getitem (params m) ''Market_Return'' of
        Inl e \<Rightarrow> Inl e
      | Inr beta \<Rightarrow>
          (case getitem (params m) ''const'' of
             Inl e \<Rightarrow> Inl e
           | Inr alpha \<Rightarrow> Inr (beta, alpha)))"

text \<open>The regressor as a whole: Beta, Jensen's Alpha and R-squared, or the exception.\<close>

definition regressor :: "real \<Rightarrow> (date \<times> real \<times> real) list \<Rightarrow> exn + (real \<times> real \<times> float64)" where
  "regressor risk_free_rate df =
     (case model risk_free_rate df of
        Inl e \<Rightarrow> Inl e
      | Inr m \<Rightarrow>
          (case coefficients m of
             Inl e \<Rightarrow> Inl e
           | Inr (beta, alpha) \<Rightarrow> Inr (beta, alpha, rsquared m)))"


section \<open>Interpretation rules (lines 92-102)\<close>

text \<open>The labels are the script's markdown strings, emoji included (as UTF-8 bytes).\<close>

definition fire :: string where
  "fire = [CHR 0xF0, CHR 0x9F, CHR 0x94, CHR 0xA5]"

definition snowflake :: string where
  "snowflake = [CHR 0xE2, CHR 0x9D, CHR 0x84, CHR 0xEF, CHR 0xB8, CHR 0x8F]"

definition right_arrow :: string where
  "right_arrow = [CHR 0xE2, CHR 0x9E, CHR 0xA1, CHR 0xEF, CHR 0xB8, CHR 0x8F]"

definition chart_up :: string where
  "chart_up = [CHR 0xF0, CHR 0x9F, CHR 0x93, CHR 0x88]"

definition chart_down :: string where
  "chart_down = [CHR 0xF0, CHR 0x9F, CHR 0x93, CHR 0x89]"

definition beta_interpretation :: "real \<Rightarrow> string" where
  "beta_interpretation beta =
     (if beta > 1 then fire @ '' **Aggressive**''
      else if beta < 1 then snowflake @ '' **Defensive**''
      else right_arrow @ '' **Neutral**'')"

definition alpha_interpretation :: "real \<Rightarrow> string" where
  "alpha_interpretation alpha =
     (if alpha > 0 then chart_up @ '' **Outperforming**''
      else if alpha < 0 then chart_down @ '' **Underperforming**''
      else right_arrow @ '' **Neutral**'')"


section \<open>The pass: what the script renders (lines 45-150)\<close>

text \<open>
  The regression's parameters and \<^verbatim>\<open>rsquared\<close> are numpy float64 scalars, so
  \<^verbatim>\<open>round(v, 4)\<close> is numpy's: multiply by 10000, \<^verbatim>\<open>rint\<close> (nearest integer, a tie going to
  the even one), divide by 10000, each step in float64. The power of ten is exact; the
  float64 rounding of the product and of the quotient is the parameter \<open>fl\<close> (the
  identity gives exact arithmetic). What is not a number stays so.
\<close>

definition rint :: "real \<Rightarrow> int" where
  "rint s =
     (let f = \<lfloor>s\<rfloor>; d = s - of_int f
      in if d < 1 / 2 then f else if d > 1 / 2 then f + 1
         else if even f then f else f + 1)"

definition py_round :: "(real \<Rightarrow> real) \<Rightarrow> real \<Rightarrow> nat \<Rightarrow> real" where
  "py_round fl v ndigits = fl (of_int (rint (fl (v * 10 ^ ndigits))) / 10 ^ ndigits)"

text \<open>
  What \<^verbatim>\<open>st.metric\<close> is given: the value \<^verbatim>\<open>round(x, ndigits)\<close>, kept with its argument, and
  the float64 it stands for.
\<close>

datatype shown = Rounded float64 nat

fun displayed :: "(real \<Rightarrow> real) \<Rightarrow> shown \<Rightarrow> float64" where
  "displayed fl (Rounded (Finite v) ndigits) = Finite (py_round fl v ndigits)"
| "displayed fl (Rounded Not_finite ndigits) = Not_finite"

text \<open>
  A piece of an f-string: literal text, or a number under the format \<^verbatim>\<open>:.4f\<close> (kept as
  the number that is formatted).
\<close>

datatype fragment = Txt string | Fmt4 real

record scatter =
  sc_x :: "real list"
  sc_y :: "real list"
  sc_trendline :: string
  sc_title :: string
  sc_xaxis_title :: string
  sc_yaxis_title :: string

record bar =
  bar_x :: "date list"
  bar_y :: "real list"
  bar_name :: string

datatype element =
    Subheader string
  | Metric string shown
  | Write "fragment list"
  | Plotly_scatter scatter
  | Plotly_bars "bar list"
  | Error "fragment list"

definition market_indices :: "(string \<times> string) list" where
  "market_indices =
     [(''S&P 500'', ''^GSPC''), (''NASDAQ 100'', ''^NDX''),
      (''Dow Jones'', ''^DJI''), (''Russell 2000'', ''^RUT'')]"

text \<open>Lines 111-120: the scatter plot is drawn from \<^verbatim>\<open>returns_df\<close>.\<close>

definition fig2 :: "string \<Rightarrow> string \<Rightarrow> (date \<times> real \<times> real) list \<Rightarrow> scatter" where
  "fig2 stock_symbol selected_index df =
     \<lparr>sc_x = Market_Return df, sc_y = Stock_Return df, sc_trendline = ''ols'',
      sc_title = stock_symbol @ '' Returns vs '' @ selected_index @ '' Returns'',
      sc_xaxis_title = selected_index @ '' Returns (%)'',
      sc_yaxis_title = stock_symbol @ '' Returns (%)''\<rparr>"

text \<open>Lines 124-136: the two bar traces.\<close>

definition fig3 :: "string \<Rightarrow> string \<Rightarrow> (date \<times> real \<times> real) list \<Rightarrow> bar list" where
  "fig3 stock_symbol selected_index df =
     [\<lparr>bar_x = index df, bar_y = Stock_Return df, bar_name = stock_symbol\<rparr>,
      \<lparr>bar_x = index df, bar_y = Market_Return df, bar_name = selected_index\<rparr>]"

text \<open>
  The body of the \<^verbatim>\<open>try\<close> block: the elements rendered, in order, and the exception
  that stopped it, if any. The provider (\<^verbatim>\<open>yf.download\<close> and the \<^verbatim>\<open>'Adj Close'\<close>
  column of what it returns) is a parameter: it gives a price series or raises.
\<close>

type_synonym provider = "string \<Rightarrow> date \<Rightarrow> date \<Rightarrow> exn + real series"

definition render_results ::
  "string \<Rightarrow> string \<Rightarrow> (date \<times> real \<times> real) list \<Rightarrow> regression_results \<Rightarrow> element list \<times> exn option"
where
  "render_results stock_symbol selected_index df m =
     (let page = [Subheader (stock_symbol @ '' Statistical Results'')]
      in case coefficients m of
           Inl e \<Rightarrow> (page, Some e)
         | Inr (beta, alpha) \<Rightarrow>
             (page @
              [Metric ''Beta'' (Rounded (Finite beta) 4),
               Metric (''Jensen'' @ [CHR 0x27] @ ''s Alpha'') (Rounded (Finite alpha) 4),
               Metric ''R-squared'' (Rounded (rsquared m) 4),
               Subheader ''Interpretation'',
               Write [Txt ''**Beta ('', Fmt4 beta, Txt ''):** This stock is '',
                      Txt (beta_interpretation beta), Txt '' compared to the '',
                      Txt selected_index],
               Write [Txt ''**Alpha ('', Fmt4 alpha, Txt ''):** This stock is '',
                      Txt (alpha_interpretation alpha),
                      Txt '' the market on a risk-adjusted basis''],
               Subheader ''Visualizations'',
               Plotly_scatter (fig2 stock_symbol selected_index df),
               Plotly_bars (fig3 stock_symbol selected_index df)],
              None))"

definition try_body ::
  "provider \<Rightarrow> string \<Rightarrow> string \<Rightarrow> date \<Rightarrow> date \<Rightarrow> real \<Rightarrow> element list \<times> exn option"
where
  "try_body fetch_data stock_symbol selected_index start_date end_date risk_free_rate =
     (case fetch_data stock_symbol start_date end_date of
        Inl e \<Rightarrow> ([], Some e)
      | Inr stock_data \<Rightarrow>
     (case map_of market_indices selected_index of
        None \<Rightarrow> ([], Some (KeyError selected_index))
      | Some ticker \<Rightarrow>
     (case fetch_data ticker start_date end_date of
        Inl e \<Rightarrow> ([], Some e)
      | Inr market_data \<Rightarrow>
     (let df = returns_df (Return stock_data) (Return market_data)
      in case model risk_free_rate df of
           Inl e \<Rightarrow> ([], Some e)
         | Inr m \<Rightarrow> render_results stock_symbol selected_index df m))))"

text \<open>Lines 148-150: the handler adds the error message and the hint.\<close>

definition run_pass ::
  "provider \<Rightarrow> string \<Rightarrow> string \<Rightarrow> date \<Rightarrow> date \<Rightarrow> real \<Rightarrow> element list"
where
  "run_pass fetch_data stock_symbol selected_index start_date end_date risk_free_rate =
     (case try_body fetch_data stock_symbol selected_index start_date end_date risk_free_rate of
        (page, None) \<Rightarrow> page
      | (page, Some e) \<Rightarrow>
          page @ [Error [Txt ''An error occurred: '', Txt (str e)],
                  Write [Txt ''Please check if the stock symbol is valid and try again.'']])"


text \<open>Reading a rendered page: its scatter plots, its metrics, its charts.\<close>

fun scatters :: "element list \<Rightarrow> scatter list" where
  "scatters [] = []"
| "scatters (Plotly_scatter f # es) = f # scatters es"
| "scatters (_ # es) = scatters es"

fun is_metric :: "element \<Rightarrow> bool" where
  "is_metric (Metric _ _) = True"
| "is_metric _ = False"

fun is_chart :: "element \<Rightarrow> bool" where
  "is_chart (Plotly_scatter _) = True"
| "is_chart (Plotly_bars _) = True"
| "is_chart _ = False"


section \<open>Example data\<close>

text \<open>The price series of the specification's worked example, on four consecutive dates.\<close>

definition stock_prices :: "real series" where
  "stock_prices = [(1, 100), (2, 102), (3, 101), (4, 105)]"

definition market_prices :: "real series" where
  "market_prices = [(1, 1000), (2, 1010), (3, 1005), (4, 1020)]"

text \<open>Two return columns whose dates overlap only in part.\<close>

definition stock_returns_example :: "cell series" where
  "stock_returns_example = [(1, None), (2, Some 2), (3, Some (- 1)), (5, Some 4)]"

definition market_returns_example :: "cell series" where
  "market_returns_example = [(2, None), (3, Some 1), (4, Some (1 / 2)), (5, Some 3)]"


text \<open>A frame of two rows (date, stock return, market return) with the same market return.\<close>

definition constant_market_frame :: "(date \<times> real \<times> real) list" where
  "constant_market_frame = [(1, 1, 2), (2, 3, 2)]"

text \<open>A frame of four rows whose stock return is the same in every row.\<close>

definition constant_stock_frame :: "(date \<times> real \<times> real) list" where
  "constant_stock_frame = [(2, 100, 50), (3, 100, 50), (4, 100, - 25), (5, 100, 50)]"

text \<open>An annual rate whose monthly rate is exactly one percent.\<close>

definition one_percent_monthly :: real where
  "one_percent_monthly = 100 * ((101 / 100) ^ 12 - 1)"


text \<open>
  Providers for whole passes. The first serves the worked example and, like the real
  provider on an unknown symbol, an empty series for anything else; the second serves a
  market series whose dates do not meet the stock's; the third serves prices whose
  fitted Beta is 1.00001 and whose fitted Alpha is 0.5.
\<close>

definition example_provider :: provider where
  "example_provider symbol start_date end_date =
     (if symbol = ''AAPL'' then Inr stock_prices
      else if symbol = ''^GSPC'' then Inr market_prices
      else Inr [])"

definition late_market_prices :: "real series" where
  "late_market_prices = [(11, 1000), (12, 1010), (13, 1005), (14, 1020)]"

definition disjoint_provider :: provider where
  "disjoint_provider symbol start_date end_date =
     (if symbol = ''AAPL'' then Inr stock_prices else Inr late_market_prices)"

definition near_one_provider :: provider where
  "near_one_provider symbol start_date end_date =
     (if symbol = ''AAPL'' then Inr [(1, 100), (2, 201 / 2), (3, 10200751005 / 100000000)]
      else Inr [(1, 100), (2, 100), (3, 101)])"


text \<open>A provider whose market series does not move.\<close>

definition flat_market_provider :: provider where
  "flat_market_provider symbol start_date end_date =
     (if symbol = ''AAPL'' then Inr stock_prices
      else Inr [(1, 100), (2, 100), (3, 100), (4, 100)])"


section \<open>Interpretation rules are a total three-way split\<close>

text \<open>
  C7. The interpretation rules are total functions of the real Beta and Alpha:
  Beta above 1 gives the Aggressive label, below 1 the Defensive label, exactly 1 the
  Neutral label; Alpha above 0 gives Outperforming, below 0 Underperforming, exactly 0
  Neutral.
\<close>

theorem interpretation_rules:
  "(beta > 1 \<longrightarrow> beta_interpretation beta = fire @ '' **Aggressive**'') \<and>
   (beta < 1 \<longrightarrow> beta_interpretation beta = snowflake @ '' **Defensive**'') \<and>
   (beta = 1 \<longrightarrow> beta_interpretation beta = right_arrow @ '' **Neutral**'') \<and>
   (alpha > 0 \<longrightarrow> alpha_interpretation alpha = chart_up @ '' **Outperforming**'') \<and>
   (alpha < 0 \<longrightarrow> alpha_interpretation alpha = chart_down @ '' **Underperforming**'') \<and>
   (alpha = 0 \<longrightarrow> alpha_interpretation alpha = right_arrow @ '' **Neutral**'')"
  by (simp add: beta_interpretation_def alpha_interpretation_def)

theorem interpretation_rules_witness:
  "((12 / 10 :: real) > 1 \<and> beta_interpretation (12 / 10) = fire @ '' **Aggressive**'') \<and>
   ((8 / 10 :: real) < 1 \<and> beta_interpretation (8 / 10) = snowflake @ '' **Defensive**'') \<and>
   beta_interpretation 1 = right_arrow @ '' **Neutral**'' \<and>
   ((5 / 100 :: real) > 0 \<and> alpha_interpretation (5 / 100) = chart_up @ '' **Outperforming**'') \<and>
   ((- 2 / 100 :: real) < 0 \<and> alpha_interpretation (- 2 / 100) = chart_down @ '' **Underperforming**'') \<and>
   alpha_interpretation 0 = right_arrow @ '' **Neutral**''"
  using interpretation_rules [of "12 / 10" "5 / 100"]
        interpretation_rules [of "8 / 10" "- 2 / 100"]
        interpretation_rules [of 1 0]
  by simp


section \<open>Return transformer\<close>

lemma length_pct_from: "length (pct_from prev ps) = length ps"
  by (induction prev ps rule: pct_from.induct) simp_all

lemma map_fst_pct_from: "map fst (pct_from prev ps) = map fst ps"
  by (induction prev ps rule: pct_from.induct) simp_all

lemma nth_pct_from:
  "t < length ps \<Longrightarrow>
   snd (pct_from prev ps ! t) =
     Some (snd (ps ! t) / (if t = 0 then prev else snd (ps ! (t - 1))) - 1)"
proof (induction prev ps arbitrary: t rule: pct_from.induct)
  case (1 prev)
  then show ?case by simp
next
  case (2 prev d p rest)
  show ?case
  proof (cases t)
    case 0
    then show ?thesis by simp
  next
    case (Suc k)
    with 2 show ?thesis by (cases k) simp_all
  qed
qed

lemma defined_pct_from:
  "filter (\<lambda>(d, c). c \<noteq> None) (pct_from prev ps) = pct_from prev ps"
  by (induction prev ps rule: pct_from.induct) simp_all

lemma length_Return: "length (Return ps) = length ps"
  by (cases ps rule: pct_change.cases) (simp_all add: Return_def length_pct_from)

lemma map_fst_Return: "map fst (Return ps) = map fst ps"
  by (cases ps rule: pct_change.cases) (simp_all add: Return_def map_fst_pct_from comp_def case_prod_unfold)

lemma Return_first: "ps \<noteq> [] \<Longrightarrow> snd (Return ps ! 0) = None"
  by (cases ps rule: pct_change.cases) (simp_all add: Return_def)

lemma Return_later:
  assumes "1 \<le> t" "t < length ps"
  shows "snd (Return ps ! t) = Some ((snd (ps ! t) / snd (ps ! (t - 1)) - 1) * 100)"
proof (cases ps rule: pct_change.cases)
  case 1
  with assms show ?thesis by simp
next
  case (2 d p rest)
  from assms obtain k where k: "t = Suc k" by (cases t) auto
  with assms 2 have kl: "k < length rest" by simp
  have "snd (Return ps ! t) = map_option (\<lambda>v. v * 100) (snd (pct_from p rest ! k))"
    using 2 k kl by (simp add: Return_def length_pct_from case_prod_unfold)
  also have "\<dots> = Some ((snd (rest ! k) / (if k = 0 then p else snd (rest ! (k - 1))) - 1) * 100)"
    using nth_pct_from [OF kl] by simp
  also have "(if k = 0 then p else snd (rest ! (k - 1))) = snd (ps ! (t - 1))"
    using 2 k by (cases k) simp_all
  also have "snd (rest ! k) = snd (ps ! t)" using 2 k by simp
  finally show ?thesis .
qed

lemma count_Return:
  "length (filter (\<lambda>(d, c). c \<noteq> None) (Return ps)) = length ps - 1"
proof (cases ps rule: pct_change.cases)
  case 1
  then show ?thesis by (simp add: Return_def)
next
  case (2 d p rest)
  have "filter (\<lambda>(d, c). c \<noteq> None) (Return ps) = map (\<lambda>(d, c). (d, map_option (\<lambda>v. v * 100) c)) (pct_from p rest)"
    using 2 defined_pct_from [of p rest]
    by (simp add: Return_def filter_map comp_def case_prod_unfold)
  then show ?thesis using 2 by (simp add: length_pct_from)
qed

text \<open>
  C4. A price series with N \<ge> 2 points (positive prices) gives a return column of N rows
  of which exactly N - 1 are defined: the first date has no return, and the return of a
  later date t is (price[t] - price[t-1]) / price[t-1] * 100.
\<close>

theorem return_points:
  assumes "2 \<le> length prices" and "\<forall>p\<in>set (map snd prices). 0 < p"
  shows "length (Return prices) = length prices \<and>
         map fst (Return prices) = map fst prices \<and>
         snd (Return prices ! 0) = None \<and>
         (\<forall>t. 1 \<le> t \<and> t < length prices \<longrightarrow>
              snd (Return prices ! t) =
                Some ((snd (prices ! t) - snd (prices ! (t - 1))) / snd (prices ! (t - 1)) * 100)) \<and>
         length (filter (\<lambda>(d, c). c \<noteq> None) (Return prices)) = length prices - 1"
proof -
  have later: "snd (Return prices ! t) =
                Some ((snd (prices ! t) - snd (prices ! (t - 1))) / snd (prices ! (t - 1)) * 100)"
    if t: "1 \<le> t" "t < length prices" for t
  proof -
    have "t - 1 < length prices" using t by simp
    then have "snd (prices ! (t - 1)) \<in> set (map snd prices)"
      by (metis length_map nth_map nth_mem)
    then have "snd (prices ! (t - 1)) \<noteq> 0" using assms(2) by fastforce
    then have "snd (prices ! t) / snd (prices ! (t - 1)) - 1 =
               (snd (prices ! t) - snd (prices ! (t - 1))) / snd (prices ! (t - 1))"
      by (simp add: diff_divide_distrib)
    then show ?thesis using Return_later [OF t] by simp
  qed
  have "prices \<noteq> []" using assms(1) by auto
  then have "snd (Return prices ! 0) = None" by (rule Return_first)
  with later length_Return [of prices] map_fst_Return [of prices] count_Return [of prices]
  show ?thesis by blast
qed

theorem return_points_witness:
  "2 \<le> length stock_prices \<and>
   length (Return stock_prices) = 4 \<and>
   map fst (Return stock_prices) = [1, 2, 3, 4] \<and>
   snd (Return stock_prices ! 0) = None \<and>
   snd (Return stock_prices ! 1) = Some 2 \<and>
   snd (Return stock_prices ! 2) = Some (- (100 / 102)) \<and>
   snd (Return stock_prices ! 3) = Some (400 / 101) \<and>
   length (filter (\<lambda>(d, c). c \<noteq> None) (Return stock_prices)) = 3"
proof -
  have h1: "2 \<le> length stock_prices" by (simp add: stock_prices_def)
  have h2: "\<forall>p\<in>set (map snd stock_prices). 0 < p" by (simp add: stock_prices_def)
  note points = return_points [OF h1 h2]
  have t: "1 \<le> (1::nat) \<and> 1 < length stock_prices" "1 \<le> (2::nat) \<and> 2 < length stock_prices"
          "1 \<le> (3::nat) \<and> 3 < length stock_prices"
    by (simp_all add: stock_prices_def)
  have len: "length (Return stock_prices) = length stock_prices"
    and dates: "map fst (Return stock_prices) = map fst stock_prices"
    and first: "snd (Return stock_prices ! 0) = None"
    and count: "length (filter (\<lambda>(d, c). c \<noteq> None) (Return stock_prices)) = length stock_prices - 1"
    using points by blast+
  have later: "snd (Return stock_prices ! k) =
      Some ((snd (stock_prices ! k) - snd (stock_prices ! (k - 1))) / snd (stock_prices ! (k - 1)) * 100)"
    if "1 \<le> k \<and> k < length stock_prices" for k
    using points that by blast
  have "snd (Return stock_prices ! 1) = Some 2"
       "snd (Return stock_prices ! 2) = Some (- (100 / 102))"
       "snd (Return stock_prices ! 3) = Some (400 / 101)"
    using later [OF t(1)] later [OF t(2)] later [OF t(3)]
    by (simp_all add: stock_prices_def)
  moreover have "length (Return stock_prices) = 4" "map fst (Return stock_prices) = [1, 2, 3, 4]"
    "length (filter (\<lambda>(d, c). c \<noteq> None) (Return stock_prices)) = 3"
    using len dates count by (simp_all add: stock_prices_def)
  ultimately show ?thesis using h1 first by blast
qed



section \<open>Aligned return pairs\<close>

lemma set_index_union: "set (index_union a b) = set a \<union> set b"
  by (simp add: index_union_def)

lemma distinct_index_union: "distinct a \<Longrightarrow> distinct (index_union a b)"
  by (auto simp: index_union_def)

lemma dropna_conv:
  "dropna rows =
     map (\<lambda>(d, s, m). (d, the s, the m)) (filter (\<lambda>(d, s, m). s \<noteq> None \<and> m \<noteq> None) rows)"
  by (induction rows rule: dropna.induct) auto

lemma index_dropna:
  "index (dropna rows) = map fst (filter (\<lambda>(d, s, m). s \<noteq> None \<and> m \<noteq> None) rows)"
  by (simp add: index_def dropna_conv comp_def case_prod_unfold)

lemma cell_at_Some:
  "distinct (map fst s) \<Longrightarrow> cell_at s d = Some v \<longleftrightarrow> (d, Some v) \<in> set s"
proof -
  assume "distinct (map fst s)"
  then have "map_of s d = Some (Some v) \<longleftrightarrow> (d, Some v) \<in> set s"
    by (rule map_of_eq_Some_iff)
  moreover have "cell_at s d = Some v \<longleftrightarrow> map_of s d = Some (Some v)"
    by (simp add: cell_at_def split: option.splits)
  ultimately show ?thesis by simp
qed

lemma cell_at_absent: "d \<notin> set (map fst s) \<Longrightarrow> cell_at s d = None"
  by (simp add: cell_at_def map_of_eq_None_iff [THEN iffD2])

lemma index_returns_df:
  "index (returns_df s m) =
     filter (\<lambda>d. cell_at s d \<noteq> None \<and> cell_at m d \<noteq> None)
            (index_union (map fst s) (map fst m))"
  by (simp add: returns_df_def index_dropna DataFrame_def filter_map comp_def)

lemma set_dropna: "set (dropna rows) = {(d, a, b). (d, Some a, Some b) \<in> set rows}"
  by (induction rows rule: dropna.induct) auto

lemma set_returns_df:
  "(d, a, b) \<in> set (returns_df s m) \<Longrightarrow> cell_at s d = Some a \<and> cell_at m d = Some b"
  by (auto simp: returns_df_def set_dropna DataFrame_def)

lemma defined_dates_card:
  "card {d. \<exists>v. (d, Some v) \<in> set s} \<le> length (filter (\<lambda>(d, c). c \<noteq> None) s)"
proof -
  have "{d. \<exists>v. (d, Some v) \<in> set s} \<subseteq> fst ` set (filter (\<lambda>(d, c). c \<noteq> None) s)"
    by force
  then have "card {d. \<exists>v. (d, Some v) \<in> set s} \<le> card (fst ` set (filter (\<lambda>(d, c). c \<noteq> None) s))"
    by (simp add: card_mono)
  also have "\<dots> \<le> card (set (filter (\<lambda>(d, c). c \<noteq> None) s))"
    by (simp add: card_image_le)
  also have "\<dots> \<le> length (filter (\<lambda>(d, c). c \<noteq> None) s)"
    by (rule card_length)
  finally show ?thesis .
qed

text \<open>
  C5. For two return columns (each with one row per date), the dates of the aligned
  frame are exactly the dates on which both returns are present and not missing, each
  row carries the two returns of its date, the number of rows is the size of that
  intersection, and it is at most the smaller of the two counts of defined returns.
\<close>

theorem aligned_pairs_inner_join:
  assumes "distinct (map fst stock)" and "distinct (map fst market)"
  shows "set (index (returns_df stock market)) =
           {d. \<exists>v. (d, Some v) \<in> set stock} \<inter> {d. \<exists>v. (d, Some v) \<in> set market} \<and>
         distinct (index (returns_df stock market)) \<and>
         (\<forall>(d, a, b) \<in> set (returns_df stock market).
            (d, Some a) \<in> set stock \<and> (d, Some b) \<in> set market) \<and>
         length (returns_df stock market) =
           card ({d. \<exists>v. (d, Some v) \<in> set stock} \<inter> {d. \<exists>v. (d, Some v) \<in> set market}) \<and>
         length (returns_df stock market) \<le>
           min (length (filter (\<lambda>(d, c). c \<noteq> None) stock))
               (length (filter (\<lambda>(d, c). c \<noteq> None) market))"
proof -
  let ?S = "{d. \<exists>v. (d, Some v) \<in> set stock}"
  let ?M = "{d. \<exists>v. (d, Some v) \<in> set market}"
  have S: "cell_at stock d \<noteq> None \<longleftrightarrow> d \<in> ?S" for d
    using cell_at_Some [OF assms(1)] by auto
  have M: "cell_at market d \<noteq> None \<longleftrightarrow> d \<in> ?M" for d
    using cell_at_Some [OF assms(2)] by auto
  have sub: "?S \<subseteq> set (map fst stock)" by force
  have idx: "set (index (returns_df stock market)) = ?S \<inter> ?M"
    unfolding index_returns_df set_filter set_index_union S M using sub by blast
  have dist: "distinct (index (returns_df stock market))"
    unfolding index_returns_df by (intro distinct_filter distinct_index_union assms(1))
  have rows: "\<forall>(d, a, b) \<in> set (returns_df stock market).
                (d, Some a) \<in> set stock \<and> (d, Some b) \<in> set market"
    using set_returns_df [of _ _ _ stock market]
          cell_at_Some [OF assms(1)] cell_at_Some [OF assms(2)] by blast
  have "length (returns_df stock market) = length (index (returns_df stock market))"
    by (simp add: index_def)
  also have "\<dots> = card (set (index (returns_df stock market)))"
    using dist by (simp add: distinct_card)
  finally have len: "length (returns_df stock market) = card (?S \<inter> ?M)"
    by (simp only: idx)
  have fin: "finite ?S" "finite ?M"
    using sub finite_subset apply blast
    by (rule finite_subset [of _ "set (map fst market)"]) force+
  have "card (?S \<inter> ?M) \<le> card ?S" "card (?S \<inter> ?M) \<le> card ?M"
    using fin by (simp_all add: card_mono)
  with defined_dates_card [of stock] defined_dates_card [of market]
  have le: "length (returns_df stock market) \<le>
              min (length (filter (\<lambda>(d, c). c \<noteq> None) stock))
                  (length (filter (\<lambda>(d, c). c \<noteq> None) market))"
    unfolding len by linarith
  from idx dist rows len le show ?thesis by blast
qed

theorem aligned_pairs_inner_join_witness:
  "distinct (map fst stock_returns_example) \<and> distinct (map fst market_returns_example) \<and>
   set (index (returns_df stock_returns_example market_returns_example)) =
     {d. \<exists>v. (d, Some v) \<in> set stock_returns_example} \<inter>
     {d. \<exists>v. (d, Some v) \<in> set market_returns_example} \<and>
   length (returns_df stock_returns_example market_returns_example) =
     card ({d. \<exists>v. (d, Some v) \<in> set stock_returns_example} \<inter>
           {d. \<exists>v. (d, Some v) \<in> set market_returns_example}) \<and>
   length (returns_df stock_returns_example market_returns_example) \<le>
     min (length (filter (\<lambda>(d, c). c \<noteq> None) stock_returns_example))
         (length (filter (\<lambda>(d, c). c \<noteq> None) market_returns_example)) \<and>
   returns_df stock_returns_example market_returns_example = [(3, - 1, 1), (5, 4, 3)]"
proof -
  have h1: "distinct (map fst stock_returns_example)"
    by (simp add: stock_returns_example_def)
  have h2: "distinct (map fst market_returns_example)"
    by (simp add: market_returns_example_def)
  have "returns_df stock_returns_example market_returns_example = [(3, - 1, 1), (5, 4, 3)]"
    by (simp add: returns_df_def DataFrame_def index_union_def cell_at_def
                  stock_returns_example_def market_returns_example_def)
  with aligned_pairs_inner_join [OF h1 h2] h1 h2 show ?thesis by blast
qed


section \<open>Sums over columns\<close>

lemma mean_shift: "v \<noteq> [] \<Longrightarrow> mean (map (\<lambda>a. a - c) v) = mean v - c"
  by (simp add: mean_def sum_list_subtractf sum_list_triv diff_divide_distrib)

lemma centred_shift: "centred (map (\<lambda>a. a - c) v) = centred v"
  by (cases "v = []") (simp_all add: centred_def mean_shift comp_def)

lemma length_centred: "length (centred v) = length v"
  by (simp add: centred_def)

lemma dot_shifted:
  "length u = length v \<Longrightarrow>
   dot (map (\<lambda>a. a - p) u) (map (\<lambda>a. a - q) v) =
     dot u v - q * sum_list u - p * sum_list v + real (length u) * p * q"
  by (induction u v rule: list_induct2) (simp_all add: dot_def algebra_simps)

lemma dot_centred:
  assumes "length u = length v" "u \<noteq> []"
  shows "dot (centred u) (centred v) = dot u v - sum_list u * sum_list v / real (length u)"
proof -
  have n: "real (length u) \<noteq> 0" using assms(2) by simp
  have "dot (centred u) (centred v) =
          dot u v - mean v * sum_list u - mean u * sum_list v + real (length u) * mean u * mean v"
    unfolding centred_def by (rule dot_shifted [OF assms(1)])
  also have "\<dots> = dot u v - sum_list u * sum_list v / real (length u)"
    using n assms(1) by (simp add: mean_def field_simps)
  finally show ?thesis .
qed

lemma dot_self_sum: "dot u u = sum_list (map (\<lambda>a. a * a) u)"
  by (simp add: dot_def map2_map_map [of _ "\<lambda>a. a" _ "\<lambda>a. a", simplified])

lemma dot_self_nonneg: "0 \<le> dot u u"
  unfolding dot_self_sum by (rule sum_list_nonneg) auto

lemma dot_self_zero: "dot u u = 0 \<longleftrightarrow> (\<forall>a\<in>set u. a = 0)"
proof -
  have "sum_list (map (\<lambda>a. a * a) u) = 0 \<longleftrightarrow> (\<forall>a\<in>set (map (\<lambda>a. a * a) u). a = 0)"
    by (rule sum_list_nonneg_eq_0_iff) auto
  then show ?thesis unfolding dot_self_sum by simp
qed

lemma mean_const: "v \<noteq> [] \<Longrightarrow> \<forall>a\<in>set v. a = k \<Longrightarrow> mean v = k"
proof -
  assume ne: "v \<noteq> []" and all: "\<forall>a\<in>set v. a = k"
  then have "map (\<lambda>a. a) v = map (\<lambda>_. k) v" by (intro map_cong) auto
  then have "sum_list v = sum_list (map (\<lambda>_. k) v)" by simp
  then show ?thesis using ne by (simp add: mean_def sum_list_triv)
qed

lemma centred_zero_iff:
  assumes "v \<noteq> []"
  shows "dot (centred v) (centred v) = 0 \<longleftrightarrow> (\<forall>a\<in>set v. a = hd v)"
proof
  assume "dot (centred v) (centred v) = 0"
  then have z: "\<forall>a\<in>set v. a = mean v" by (auto simp: dot_self_zero centred_def)
  moreover have "hd v \<in> set v" using assms by simp
  ultimately have "hd v = mean v" by blast
  with z show "\<forall>a\<in>set v. a = hd v" by simp
next
  assume all: "\<forall>a\<in>set v. a = hd v"
  then have "mean v = hd v" using assms by (intro mean_const)
  with all show "dot (centred v) (centred v) = 0" by (auto simp: dot_self_zero centred_def)
qed

lemma ptp_zero_iff:
  assumes "v \<noteq> []"
  shows "ptp v = 0 \<longleftrightarrow> (\<forall>a\<in>set v. a = hd v)"
proof
  assume "ptp v = 0"
  then have eq: "Max (set v) = Min (set v)" by (simp add: ptp_def)
  have "a = Min (set v)" if "a \<in> set v" for a
  proof -
    have "Min (set v) \<le> a" using that by simp
    moreover have "a \<le> Max (set v)" using that by simp
    ultimately show ?thesis using eq by linarith
  qed
  then have "\<forall>a\<in>set v. a = Min (set v)" by blast
  moreover have "hd v \<in> set v" using assms by simp
  ultimately show "\<forall>a\<in>set v. a = hd v" by metis
next
  assume "\<forall>a\<in>set v. a = hd v"
  then have "set v = {hd v}" using assms by (auto intro: hd_in_set)
  then show "ptp v = 0" by (simp add: ptp_def)
qed

lemma ssr_line:
  "length u = length v \<Longrightarrow>
   ssr v (map (\<lambda>t. a + b * t) u) =
     dot v v - 2 * a * sum_list v - 2 * b * dot u v
       + a * a * real (length u) + 2 * a * b * sum_list u + b * b * dot u u"
  by (induction u v rule: list_induct2) (simp_all add: ssr_def dot_def algebra_simps power2_eq_square)


section \<open>Outcomes of the regressor\<close>

lemma length_X: "length (X r df) = length df"
  by (simp add: X_def Market_Return_def)

lemma length_y: "length (y r df) = length df"
  by (simp add: y_def Stock_Return_def)

lemma X_Nil_iff: "X r df = [] \<longleftrightarrow> df = []"
  by (simp add: X_def Market_Return_def)

text \<open>The three ways the regressor can go on a frame with rows.\<close>

lemma regressor_empty:
  "regressor r [] =
     Inl (ValueError ''zero-size array to reduction operation maximum which has no identity'')"
  by (simp add: regressor_def model_def X_def y_def Market_Return_def Stock_Return_def
                add_constant_def OLS_fit_def)

lemma add_constant_varying:
  assumes "dot (centred x) (centred x) \<noteq> 0"
  shows "add_constant x = Const_and_x x"
proof (cases "x = []")
  case True
  then show ?thesis by (simp add: add_constant_def)
next
  case False
  with assms have "ptp x \<noteq> 0" by (simp add: centred_zero_iff ptp_zero_iff)
  then show ?thesis by (simp add: add_constant_def)
qed

lemma varying_nonempty: "dot (centred x) (centred x) \<noteq> 0 \<Longrightarrow> x \<noteq> []"
  by (auto simp: centred_def dot_def)

lemma regressor_varying:
  assumes "dot (centred (X r df)) (centred (X r df)) \<noteq> 0"
  shows "regressor r df =
           Inr (snd (pinv_const_x (X r df) (y r df)), fst (pinv_const_x (X r df) (y r df)),
                rsquared_of (y r df)
                  (map (\<lambda>v. fst (pinv_const_x (X r df) (y r df))
                            + snd (pinv_const_x (X r df) (y r df)) * v) (X r df)))"
  using add_constant_varying [OF assms] varying_nonempty [OF assms]
  by (simp add: regressor_def model_def OLS_fit_def coefficients_def getitem_def
                case_prod_unfold Let_def)

lemma regressor_constant_nonzero:
  assumes "X r df \<noteq> []" "\<forall>v\<in>set (X r df). v = hd (X r df)" "hd (X r df) \<noteq> 0"
  shows "regressor r df = Inl (KeyError ''const'')"
proof -
  have "ptp (X r df) = 0" using assms(1,2) by (simp add: ptp_zero_iff)
  moreover have "\<exists>v\<in>set (X r df). v \<noteq> 0" using assms(1,3) hd_in_set by blast
  ultimately have "add_constant (X r df) = Only_x (X r df)"
    using assms(1) by (simp add: add_constant_def)
  then show ?thesis using assms(1)
    by (simp add: regressor_def model_def OLS_fit_def coefficients_def getitem_def Let_def)
qed

lemma regressor_constant_zero:
  assumes "X r df \<noteq> []" "\<forall>v\<in>set (X r df). v = 0"
  shows "regressor r df =
           Inr (0, mean (y r df), rsquared_of (y r df) (map (\<lambda>v. mean (y r df) + 0 * v) (X r df)))"
proof -
  have "add_constant (X r df) = Const_and_x (X r df)"
    using assms by (simp add: add_constant_def)
  moreover have h: "hd (X r df) = 0" using assms hd_in_set by blast
  then have "\<forall>v\<in>set (X r df). v = hd (X r df)" using assms(2) by simp
  then have "dot (centred (X r df)) (centred (X r df)) = 0"
    using assms(1) by (simp add: centred_zero_iff)
  then have "pinv_const_x (X r df) (y r df) = (mean (y r df), 0)"
    using h by (simp add: pinv_const_x_def)
  ultimately show ?thesis using assms(1)
    by (simp add: regressor_def model_def OLS_fit_def coefficients_def getitem_def)
qed


section \<open>Least squares\<close>

lemma normal_equations:
  assumes len: "length u = length v" and var: "dot (centred u) (centred u) \<noteq> 0"
  shows "sum_list v = real (length u) * fst (pinv_const_x u v) + snd (pinv_const_x u v) * sum_list u"
    and "dot u v = fst (pinv_const_x u v) * sum_list u + snd (pinv_const_x u v) * dot u u"
proof -
  have ne: "u \<noteq> []" using var by (rule varying_nonempty)
  then have n: "real (length u) \<noteq> 0" by simp
  define b where "b = dot (centred u) (centred v) / dot (centred u) (centred u)"
  have p: "pinv_const_x u v = (mean v - b * mean u, b)"
    using var by (simp add: pinv_const_x_def b_def)
  have cxx: "dot (centred u) (centred u) = dot u u - sum_list u * sum_list u / real (length u)"
    using ne by (simp add: dot_centred)
  have cxy: "dot (centred u) (centred v) = dot u v - sum_list u * sum_list v / real (length u)"
    using ne len by (simp add: dot_centred)
  have bc: "b * dot (centred u) (centred u) = dot (centred u) (centred v)"
    using var by (simp add: b_def)
  show "sum_list v = real (length u) * fst (pinv_const_x u v) + snd (pinv_const_x u v) * sum_list u"
    using n len by (simp add: p mean_def field_simps)
  have "(mean v - b * mean u) * sum_list u + b * dot u u =
          sum_list u * sum_list v / real (length u) + b * (dot u u - sum_list u * sum_list u / real (length u))"
    using n len by (simp add: mean_def field_simps)
  also have "\<dots> = sum_list u * sum_list v / real (length u) + dot (centred u) (centred v)"
    using bc by (simp only: cxx [symmetric])
  also have "\<dots> = dot u v" by (simp add: cxy)
  finally show "dot u v = fst (pinv_const_x u v) * sum_list u + snd (pinv_const_x u v) * dot u u"
    by (simp add: p)
qed

lemma ssr_difference:
  fixes n Sx Sy Sxx Sxy Syy a b a' b' :: real
  assumes "Sy = n * a + b * Sx" and "Sxy = a * Sx + b * Sxx"
  shows "(Syy - 2 * a' * Sy - 2 * b' * Sxy + a' * a' * n + 2 * a' * b' * Sx + b' * b' * Sxx)
         - (Syy - 2 * a * Sy - 2 * b * Sxy + a * a * n + 2 * a * b * Sx + b * b * Sxx)
         = n * (a' - a) * (a' - a) + 2 * (a' - a) * (b' - b) * Sx + (b' - b) * (b' - b) * Sxx"
  by (simp add: assms algebra_simps)

lemma quadratic_form:
  fixes n Sx Sxx p q :: real
  assumes "n \<noteq> 0"
  shows "n * p * p + 2 * p * q * Sx + q * q * Sxx =
         n * (p + q * Sx / n)\<^sup>2 + q\<^sup>2 * (Sxx - Sx * Sx / n)"
  using assms by (simp add: field_simps power2_eq_square)

lemma ssr_excess:
  assumes len: "length u = length v" and var: "dot (centred u) (centred u) \<noteq> 0"
  shows "ssr v (map (\<lambda>t. a' + b' * t) u) =
         ssr v (map (\<lambda>t. fst (pinv_const_x u v) + snd (pinv_const_x u v) * t) u)
         + (real (length u) * (a' - fst (pinv_const_x u v)
                 + (b' - snd (pinv_const_x u v)) * sum_list u / real (length u))\<^sup>2
            + (b' - snd (pinv_const_x u v))\<^sup>2 * dot (centred u) (centred u))"
proof -
  have ne: "u \<noteq> []" using var by (rule varying_nonempty)
  then have n: "real (length u) \<noteq> 0" by simp
  have cxx: "dot (centred u) (centred u) = dot u u - sum_list u * sum_list u / real (length u)"
    using ne by (simp add: dot_centred)
  note ne1 = normal_equations [OF len var]
  have "ssr v (map (\<lambda>t. a' + b' * t) u)
        - ssr v (map (\<lambda>t. fst (pinv_const_x u v) + snd (pinv_const_x u v) * t) u)
        = real (length u) * (a' - fst (pinv_const_x u v)) * (a' - fst (pinv_const_x u v))
          + 2 * (a' - fst (pinv_const_x u v)) * (b' - snd (pinv_const_x u v)) * sum_list u
          + (b' - snd (pinv_const_x u v)) * (b' - snd (pinv_const_x u v)) * dot u u"
    unfolding ssr_line [OF len] by (rule ssr_difference [OF ne1])
  also have "\<dots> = real (length u) * (a' - fst (pinv_const_x u v)
                 + (b' - snd (pinv_const_x u v)) * sum_list u / real (length u))\<^sup>2
            + (b' - snd (pinv_const_x u v))\<^sup>2 * dot (centred u) (centred u)"
    unfolding cxx by (rule quadratic_form [OF n])
  finally show ?thesis by simp
qed

lemma least_squares:
  assumes len: "length u = length v" and var: "dot (centred u) (centred u) \<noteq> 0"
  shows "ssr v (map (\<lambda>t. fst (pinv_const_x u v) + snd (pinv_const_x u v) * t) u)
           \<le> ssr v (map (\<lambda>t. a' + b' * t) u)"
    and "ssr v (map (\<lambda>t. a' + b' * t) u) =
           ssr v (map (\<lambda>t. fst (pinv_const_x u v) + snd (pinv_const_x u v) * t) u)
         \<Longrightarrow> a' = fst (pinv_const_x u v) \<and> b' = snd (pinv_const_x u v)"
proof -
  let ?a = "fst (pinv_const_x u v)" and ?b = "snd (pinv_const_x u v)"
  let ?C = "dot (centred u) (centred u)"
  let ?n = "real (length u)"
  have ne: "u \<noteq> []" using var by (rule varying_nonempty)
  then have n: "0 < ?n" by simp
  have C: "0 < ?C" using var dot_self_nonneg [of "centred u"] by simp
  let ?P = "?n * (a' - ?a + (b' - ?b) * sum_list u / ?n)\<^sup>2"
  let ?Q = "(b' - ?b)\<^sup>2 * ?C"
  have P: "0 \<le> ?P" using n by simp
  have Q: "0 \<le> ?Q" using C by simp
  note ex = ssr_excess [OF len var, of a' b']
  show "ssr v (map (\<lambda>t. ?a + ?b * t) u) \<le> ssr v (map (\<lambda>t. a' + b' * t) u)"
    using ex P Q by linarith
  assume "ssr v (map (\<lambda>t. a' + b' * t) u) = ssr v (map (\<lambda>t. ?a + ?b * t) u)"
  with ex have "?P + ?Q = 0" by linarith
  with P Q have P0: "?P = 0" and Q0: "?Q = 0" by linarith+
  from Q0 C have b: "b' = ?b" by simp
  from P0 n have "a' - ?a + (b' - ?b) * sum_list u / ?n = 0" by simp
  with b have "a' = ?a" by simp
  with b show "a' = ?a \<and> b' = ?b" by simp
qed

lemma centred_X: "centred (X r df) = centred (Market_Return df)"
  by (simp add: X_def centred_shift)

lemma centred_y: "centred (y r df) = centred (Stock_Return df)"
  by (simp add: y_def centred_shift)

lemma varying_market:
  assumes "\<exists>u\<in>set (Market_Return df). \<exists>v\<in>set (Market_Return df). u \<noteq> v"
  shows "dot (centred (X r df)) (centred (X r df)) \<noteq> 0"
proof -
  from assms have ne: "Market_Return df \<noteq> []" by auto
  from assms have "\<not> (\<forall>a\<in>set (Market_Return df). a = hd (Market_Return df))" by metis
  then show ?thesis unfolding centred_X using ne by (simp add: centred_zero_iff)
qed

lemma centered_tss_centred: "centered_tss v = dot (centred v) (centred v)"
  by (simp add: centered_tss_def dot_self_sum centred_def comp_def power2_eq_square)

lemma varying_stock:
  assumes "\<exists>u\<in>set (Stock_Return df). \<exists>v\<in>set (Stock_Return df). u \<noteq> v"
  shows "centered_tss (y r df) \<noteq> 0"
proof -
  from assms have ne: "Stock_Return df \<noteq> []" by auto
  from assms have "\<not> (\<forall>a\<in>set (Stock_Return df). a = hd (Stock_Return df))" by metis
  then show ?thesis
    unfolding centered_tss_centred centred_y using ne by (simp add: centred_zero_iff)
qed

text \<open>
  C1 (as amended). For every aligned frame whose market returns are not all equal (so
  it has at least two rows), the regressor subtracts the periodic rate times 100 from
  both columns and returns Beta and Jensen's Alpha such that (Alpha, Beta) is the one
  and only pair minimising the unweighted sum of squared residuals of
  excess stock = a + b * excess market over all rows; and when the stock returns are
  not all equal either, R-squared is the coefficient of determination 1 - SSR / SST of
  that fit.
\<close>

theorem ols_fit:
  assumes "\<exists>u\<in>set (Market_Return df). \<exists>v\<in>set (Market_Return df). u \<noteq> v"
  shows "\<exists>beta alpha q.
           regressor r df = Inr (beta, alpha, q) \<and>
           (\<forall>a b. ssr (y r df) (map (\<lambda>v. alpha + beta * v) (X r df))
                    \<le> ssr (y r df) (map (\<lambda>v. a + b * v) (X r df))) \<and>
           (\<forall>a b. ssr (y r df) (map (\<lambda>v. a + b * v) (X r df))
                    = ssr (y r df) (map (\<lambda>v. alpha + beta * v) (X r df))
                  \<longrightarrow> a = alpha \<and> b = beta) \<and>
           ((\<exists>u\<in>set (Stock_Return df). \<exists>v\<in>set (Stock_Return df). u \<noteq> v) \<longrightarrow>
              centered_tss (y r df) \<noteq> 0 \<and>
              q = Finite (1 - ssr (y r df) (map (\<lambda>v. alpha + beta * v) (X r df))
                                / centered_tss (y r df))) \<and>
           X r df = map (\<lambda>v. v - risk_free_rate_monthly r * 100) (Market_Return df) \<and>
           y r df = map (\<lambda>v. v - risk_free_rate_monthly r * 100) (Stock_Return df)"
proof -
  have var: "dot (centred (X r df)) (centred (X r df)) \<noteq> 0"
    using assms by (rule varying_market)
  have len: "length (X r df) = length (y r df)" by (simp add: length_X length_y)
  let ?alpha = "fst (pinv_const_x (X r df) (y r df))"
  let ?beta = "snd (pinv_const_x (X r df) (y r df))"
  let ?q = "rsquared_of (y r df) (map (\<lambda>v. ?alpha + ?beta * v) (X r df))"
  have "regressor r df = Inr (?beta, ?alpha, ?q)"
    using regressor_varying [OF var] .
  moreover have "\<forall>a b. ssr (y r df) (map (\<lambda>v. ?alpha + ?beta * v) (X r df))
                    \<le> ssr (y r df) (map (\<lambda>v. a + b * v) (X r df))"
    using least_squares(1) [OF len var] by blast
  moreover have "\<forall>a b. ssr (y r df) (map (\<lambda>v. a + b * v) (X r df))
                    = ssr (y r df) (map (\<lambda>v. ?alpha + ?beta * v) (X r df))
                  \<longrightarrow> a = ?alpha \<and> b = ?beta"
    using least_squares(2) [OF len var] by blast
  moreover have "(\<exists>u\<in>set (Stock_Return df). \<exists>v\<in>set (Stock_Return df). u \<noteq> v) \<longrightarrow>
              centered_tss (y r df) \<noteq> 0 \<and>
              ?q = Finite (1 - ssr (y r df) (map (\<lambda>v. ?alpha + ?beta * v) (X r df))
                                / centered_tss (y r df))"
    using varying_stock [of df r] by (simp add: rsquared_of_def)
  moreover have "X r df = map (\<lambda>v. v - risk_free_rate_monthly r * 100) (Market_Return df)"
    by (simp add: X_def)
  moreover have "y r df = map (\<lambda>v. v - risk_free_rate_monthly r * 100) (Stock_Return df)"
    by (simp add: y_def)
  ultimately show ?thesis by blast
qed

lemma rfm_zero: "risk_free_rate_monthly 0 = 0"
  by (simp add: risk_free_rate_monthly_def)

text \<open>
  At least two rows are not enough, in two ways. With two rows of equal market return
  and a zero rate, \<^verbatim>\<open>add_constant\<close> adds nothing, the fit has no intercept, and reading
  \<^verbatim>\<open>params["const"]\<close> raises: the regressor returns no Beta and no Alpha. And with four
  rows of equal stock return the total sum of squares is 0, so \<^verbatim>\<open>rsquared\<close> divides by
  zero and is no number.
\<close>

theorem ols_fit_counterexample:
  "2 \<le> length constant_market_frame \<and>
   regressor 0 constant_market_frame = Inl (KeyError ''const'') \<and>
   2 \<le> length constant_stock_frame \<and>
   map_sum str rsquared (model 0 constant_stock_frame) = Inr Not_finite"
  by (simp add: constant_market_frame_def constant_stock_frame_def regressor_def model_def
        X_def y_def Market_Return_def Stock_Return_def risk_free_rate_monthly_def
        add_constant_def ptp_def OLS_fit_def coefficients_def getitem_def Let_def
        rsquared_of_def centered_tss_def mean_def case_prod_unfold)

text \<open>The worked example of the specification, at a zero rate.\<close>

lemma example_frame:
  "returns_df (Return stock_prices) (Return market_prices) =
     [(2, 2, 1), (3, - (50 / 51), - (50 / 101)), (4, 400 / 101, 100 / 67)]"
  by (simp add: returns_df_def DataFrame_def index_union_def cell_at_def Return_def
                stock_prices_def market_prices_def)

lemma example_regressor:
  "regressor 0 [(2, 2, 1), (3, - (50 / 51), - (50 / 101)), (4, 400 / 101, 100 / 67)] =
     Inr (2542531879 / 1072329927, 8804869225 / 108305322627,
          Finite (1440068691408169 / 1479869378330044))"
  by (simp add: regressor_def model_def X_def y_def
        Market_Return_def Stock_Return_def risk_free_rate_monthly_def add_constant_def ptp_def
        OLS_fit_def coefficients_def getitem_def pinv_const_x_def dot_def centred_def mean_def
        rsquared_of_def ssr_def centered_tss_def power2_eq_square Let_def)


theorem ols_fit_witness:
  "regressor 0 (returns_df (Return stock_prices) (Return market_prices)) =
     Inr (2542531879 / 1072329927, 8804869225 / 108305322627,
          Finite (1440068691408169 / 1479869378330044)) \<and>
   (\<forall>a b. ssr (y 0 (returns_df (Return stock_prices) (Return market_prices)))
              (map (\<lambda>v. 8804869225 / 108305322627 + 2542531879 / 1072329927 * v)
                   (X 0 (returns_df (Return stock_prices) (Return market_prices))))
           \<le> ssr (y 0 (returns_df (Return stock_prices) (Return market_prices)))
                 (map (\<lambda>v. a + b * v)
                      (X 0 (returns_df (Return stock_prices) (Return market_prices)))))"
proof -
  let ?df = "returns_df (Return stock_prices) (Return market_prices)"
  have "(1::real) \<in> set (Market_Return ?df)" "- (50 / 101 :: real) \<in> set (Market_Return ?df)"
       "(1::real) \<noteq> - (50 / 101)"
    by (simp_all add: example_frame Market_Return_def)
  then have h: "\<exists>u\<in>set (Market_Return ?df). \<exists>v\<in>set (Market_Return ?df). u \<noteq> v"
    by blast
  from ols_fit [OF h, of 0] obtain beta alpha q where
    fit: "regressor 0 ?df = Inr (beta, alpha, q)"
    and least: "\<forall>a b. ssr (y 0 ?df) (map (\<lambda>v. alpha + beta * v) (X 0 ?df))
                       \<le> ssr (y 0 ?df) (map (\<lambda>v. a + b * v) (X 0 ?df))"
    by blast
  have val: "regressor 0 ?df =
     Inr (2542531879 / 1072329927, 8804869225 / 108305322627,
          Finite (1440068691408169 / 1479869378330044))"
    by (simp only: example_frame example_regressor)
  have inj: "b = b' \<and> a = a'"
    if "Inr (b', a', q') = (Inr (b, a, q) :: exn + real \<times> real \<times> float64)" for b a q b' a' q'
    using that by simp
  from inj [OF fit [unfolded val]]
  have be: "beta = 2542531879 / 1072329927" and al: "alpha = 8804869225 / 108305322627"
    by blast+
  have "\<forall>a b. ssr (y 0 ?df)
              (map (\<lambda>v. 8804869225 / 108305322627 + 2542531879 / 1072329927 * v) (X 0 ?df))
           \<le> ssr (y 0 ?df) (map (\<lambda>v. a + b * v) (X 0 ?df))"
    using least unfolding be al .
  with val show ?thesis ..
qed


section \<open>The periodic rate\<close>

lemma rfm_root:
  assumes "0 \<le> r"
  shows "risk_free_rate_monthly r = root 12 (1 + r / 100) - 1"
proof -
  have "0 < 1 + r / 100" using assms by simp
  then have "root 12 (1 + r / 100) = (1 + r / 100) powr (1 / real 12)"
    by (intro root_powr_inverse) simp_all
  then show ?thesis by (simp add: risk_free_rate_monthly_def)
qed

lemma rfm_compound:
  assumes "0 \<le> r"
  shows "(1 + risk_free_rate_monthly r) ^ 12 = 1 + r / 100"
proof -
  have "0 \<le> 1 + r / 100" using assms by simp
  then have "root 12 (1 + r / 100) ^ 12 = 1 + r / 100"
    by (intro real_root_pow_pos2) simp_all
  then show ?thesis by (simp add: rfm_root [OF assms])
qed

lemma rfm_nonneg:
  assumes "0 \<le> r"
  shows "0 \<le> risk_free_rate_monthly r"
proof -
  have "1 \<le> 1 + r / 100" using assms by simp
  then have "1 \<le> (1 + r / 100) powr (1 / 12)"
    by (intro ge_one_powr_ge_zero) simp_all
  then show ?thesis by (simp add: risk_free_rate_monthly_def)
qed

lemma rfm_pos:
  assumes "0 < r"
  shows "0 < risk_free_rate_monthly r"
proof -
  have "1 < 1 + r / 100" using assms by simp
  then have "1 < (1 + r / 100) powr (1 / 12)"
    by (intro gr_one_powr) simp_all
  then show ?thesis by (simp add: risk_free_rate_monthly_def)
qed

lemma rfm_one_percent: "risk_free_rate_monthly one_percent_monthly = 1 / 100"
proof -
  have "1 + 100 * (x - 1) / 100 = x" for x :: real by (simp add: field_simps)
  then have "1 + one_percent_monthly / 100 = (101 / 100 :: real) ^ 12"
    unfolding one_percent_monthly_def .
  also have "\<dots> = (101 / 100) powr (real 12)"
    by (intro powr_realpow [symmetric]) simp
  finally have "(1 + one_percent_monthly / 100) powr (1 / 12) = ((101 / 100) powr (real 12)) powr (1 / 12)"
    by (simp only:)
  also have "\<dots> = (101 / 100) powr (real 12 * (1 / 12))" by (rule powr_powr)
  also have "\<dots> = 101 / 100" by simp
  finally have e: "(1 + one_percent_monthly / 100) powr (1 / 12) = 101 / 100" .
  show ?thesis unfolding risk_free_rate_monthly_def e by simp
qed

lemma one_percent_monthly_range: "0 \<le> one_percent_monthly \<and> one_percent_monthly \<le> 20"
  by (simp add: one_percent_monthly_def power_divide)


text \<open>
  C2. For every annual rate r in [0, 20], the periodic rate is
  (1 + r/100)^(1/12) - 1, the twelfth root whatever the dates of the frame are (a frame
  with the same returns on other dates gives the same excess columns), and it is
  multiplied by 100 before it is subtracted from both return columns that go into the
  fit.
\<close>

theorem periodic_rate:
  assumes "0 \<le> r" and "r \<le> 20"
  shows "risk_free_rate_monthly r = (1 + r / 100) powr (1 / 12) - 1 \<and>
         risk_free_rate_monthly r = root 12 (1 + r / 100) - 1 \<and>
         (1 + risk_free_rate_monthly r) ^ 12 = 1 + r / 100 \<and>
         X r df = map (\<lambda>(d, s, m). m - ((1 + r / 100) powr (1 / 12) - 1) * 100) df \<and>
         y r df = map (\<lambda>(d, s, m). s - ((1 + r / 100) powr (1 / 12) - 1) * 100) df \<and>
         model r df = OLS_fit (y r df) (add_constant (X r df)) \<and>
         (\<forall>df'. map snd df' = map snd df \<longrightarrow> X r df' = X r df \<and> y r df' = y r df)"
proof -
  have a: "risk_free_rate_monthly r = (1 + r / 100) powr (1 / 12) - 1"
    by (simp add: risk_free_rate_monthly_def)
  have b: "X r df = map (\<lambda>(d, s, m). m - ((1 + r / 100) powr (1 / 12) - 1) * 100) df"
    by (simp add: X_def Market_Return_def risk_free_rate_monthly_def case_prod_unfold)
  have c: "y r df = map (\<lambda>(d, s, m). s - ((1 + r / 100) powr (1 / 12) - 1) * 100) df"
    by (simp add: y_def Stock_Return_def risk_free_rate_monthly_def case_prod_unfold)
  have d: "X r df' = X r df \<and> y r df' = y r df" if "map snd df' = map snd df" for df'
  proof -
    have "Market_Return df' = map (\<lambda>p. snd p) (map snd df')"
         "Stock_Return df' = map (\<lambda>p. fst p) (map snd df')"
         "Market_Return df = map (\<lambda>p. snd p) (map snd df)"
         "Stock_Return df = map (\<lambda>p. fst p) (map snd df)"
      by (simp_all add: Market_Return_def Stock_Return_def case_prod_unfold)
    with that show ?thesis by (simp add: X_def y_def)
  qed
  have e: "model r df = OLS_fit (y r df) (add_constant (X r df))"
    by (simp add: model_def)
  from a b c d e rfm_root [OF assms(1)] rfm_compound [OF assms(1)] show ?thesis
    by blast
qed

theorem periodic_rate_witness:
  "(0::real) \<le> 6 \<and> (6::real) \<le> 20 \<and>
   risk_free_rate_monthly 6 = (1 + 6 / 100) powr (1 / 12) - 1 \<and>
   (1 + risk_free_rate_monthly 6) ^ 12 = 1 + 6 / 100 \<and>
   X 6 constant_market_frame =
     [2 - ((1 + 6 / 100) powr (1 / 12) - 1) * 100, 2 - ((1 + 6 / 100) powr (1 / 12) - 1) * 100] \<and>
   y 6 constant_market_frame =
     [1 - ((1 + 6 / 100) powr (1 / 12) - 1) * 100, 3 - ((1 + 6 / 100) powr (1 / 12) - 1) * 100]"
proof -
  have h: "(0::real) \<le> 6" "(6::real) \<le> 20" by simp_all
  note rate = periodic_rate [OF h, of constant_market_frame]
  have "X 6 constant_market_frame =
          map (\<lambda>(d, s, m). m - ((1 + 6 / 100) powr (1 / 12) - 1) * 100) constant_market_frame"
       "y 6 constant_market_frame =
          map (\<lambda>(d, s, m). s - ((1 + 6 / 100) powr (1 / 12) - 1) * 100) constant_market_frame"
    using rate by blast+
  then have "X 6 constant_market_frame =
     [2 - ((1 + 6 / 100) powr (1 / 12) - 1) * 100, 2 - ((1 + 6 / 100) powr (1 / 12) - 1) * 100]"
   "y 6 constant_market_frame =
     [1 - ((1 + 6 / 100) powr (1 / 12) - 1) * 100, 3 - ((1 + 6 / 100) powr (1 / 12) - 1) * 100]"
    by (simp_all add: constant_market_frame_def)
  moreover have "risk_free_rate_monthly 6 = (1 + 6 / 100) powr (1 / 12) - 1"
    "(1 + risk_free_rate_monthly 6) ^ 12 = 1 + 6 / 100"
    using rate by blast+
  ultimately show ?thesis using h by blast
qed


section \<open>Changing the risk-free rate\<close>

lemma X_shift:
  "X r2 df = map (\<lambda>v. v - (risk_free_rate_monthly r2 - risk_free_rate_monthly r1) * 100) (X r1 df)"
  by (simp add: X_def algebra_simps)

lemma y_shift:
  "y r2 df = map (\<lambda>v. v - (risk_free_rate_monthly r2 - risk_free_rate_monthly r1) * 100) (y r1 df)"
  by (simp add: y_def algebra_simps)

lemma regressor_same_rate:
  "risk_free_rate_monthly r1 = risk_free_rate_monthly r2 \<Longrightarrow> regressor r1 df = regressor r2 df"
  by (simp add: regressor_def model_def X_def y_def)

lemma pinv_excess:
  assumes var: "dot (centred (Market_Return df)) (centred (Market_Return df)) \<noteq> 0"
  shows "pinv_const_x (X r df) (y r df) =
           (mean (Stock_Return df) - risk_free_rate_monthly r * 100
              - dot (centred (Market_Return df)) (centred (Stock_Return df))
                  / dot (centred (Market_Return df)) (centred (Market_Return df))
                * (mean (Market_Return df) - risk_free_rate_monthly r * 100),
            dot (centred (Market_Return df)) (centred (Stock_Return df))
              / dot (centred (Market_Return df)) (centred (Market_Return df)))"
proof -
  have m: "Market_Return df \<noteq> []" using var by (rule varying_nonempty)
  then have s: "Stock_Return df \<noteq> []" by (simp add: Market_Return_def Stock_Return_def)
  have "mean (X r df) = mean (Market_Return df) - risk_free_rate_monthly r * 100"
    unfolding X_def using m by (rule mean_shift)
  moreover have "mean (y r df) = mean (Stock_Return df) - risk_free_rate_monthly r * 100"
    unfolding y_def using s by (rule mean_shift)
  ultimately show ?thesis
    using var by (simp add: pinv_const_x_def centred_X centred_y)
qed

text \<open>
  C3. Take a frame and two annual rates on which the regression is defined. Going from
  the first rate to the second shifts both excess columns by the same constant in
  every row, leaves Beta as it is, and moves Alpha by
  - (periodic rate shift) * 100 * (1 - Beta).
\<close>

theorem risk_free_shift:
  assumes one: "regressor r1 df = Inr (beta1, alpha1, q1)"
      and two: "regressor r2 df = Inr (beta2, alpha2, q2)"
  shows "X r2 df = map (\<lambda>v. v - (risk_free_rate_monthly r2 - risk_free_rate_monthly r1) * 100) (X r1 df) \<and>
         y r2 df = map (\<lambda>v. v - (risk_free_rate_monthly r2 - risk_free_rate_monthly r1) * 100) (y r1 df) \<and>
         beta2 = beta1 \<and>
         alpha2 = alpha1 - (risk_free_rate_monthly r2 - risk_free_rate_monthly r1) * 100 * (1 - beta1)"
proof -
  let ?M = "Market_Return df"
  have coef: "beta2 = beta1 \<and>
         alpha2 = alpha1 - (risk_free_rate_monthly r2 - risk_free_rate_monthly r1) * 100 * (1 - beta1)"
  proof (cases "dot (centred ?M) (centred ?M) = 0")
    case False
    define B where "B = dot (centred ?M) (centred (Stock_Return df)) / dot (centred ?M) (centred ?M)"
    define ms where "ms = mean (Stock_Return df)"
    define mm where "mm = mean ?M"
    define p1 where "p1 = risk_free_rate_monthly r1"
    define p2 where "p2 = risk_free_rate_monthly r2"
    from False have v1: "dot (centred (X r1 df)) (centred (X r1 df)) \<noteq> 0"
      and v2: "dot (centred (X r2 df)) (centred (X r2 df)) \<noteq> 0"
      by (simp_all add: centred_X)
    from one regressor_varying [OF v1]
    have "beta1 = snd (pinv_const_x (X r1 df) (y r1 df))" "alpha1 = fst (pinv_const_x (X r1 df) (y r1 df))"
      by simp_all
    moreover from two regressor_varying [OF v2]
    have "beta2 = snd (pinv_const_x (X r2 df) (y r2 df))" "alpha2 = fst (pinv_const_x (X r2 df) (y r2 df))"
      by simp_all
    ultimately have b: "beta1 = B" "beta2 = B"
      and a: "alpha1 = ms - p1 * 100 - B * (mm - p1 * 100)"
             "alpha2 = ms - p2 * 100 - B * (mm - p2 * 100)"
      by (simp_all add: pinv_excess [OF False] B_def ms_def mm_def p1_def p2_def)
    have "alpha2 = alpha1 - (p2 - p1) * 100 * (1 - B)"
      unfolding a by (simp add: algebra_simps)
    then show ?thesis using b by (simp add: p1_def p2_def)
  next
    case True
    have ne: "df \<noteq> []" using one by (auto simp: regressor_empty)
    then have m: "?M \<noteq> []" by (simp add: Market_Return_def)
    with True have const: "\<forall>a\<in>set ?M. a = hd ?M" by (simp add: centred_zero_iff)
    have zero: "hd ?M = risk_free_rate_monthly r * 100"
      if ok: "regressor r df = Inr (b, a, q)" for r b a q
    proof (rule ccontr)
      assume neq: "hd ?M \<noteq> risk_free_rate_monthly r * 100"
      have x: "X r df \<noteq> []" using ne by (simp add: X_Nil_iff)
      have h: "hd (X r df) = hd ?M - risk_free_rate_monthly r * 100"
        using m by (simp add: X_def hd_map)
      have "\<forall>v\<in>set (X r df). v = hd (X r df)"
        unfolding h using const by (auto simp: X_def)
      moreover have "hd (X r df) \<noteq> 0" using h neq by simp
      ultimately have "regressor r df = Inl (KeyError ''const'')"
        using x by (intro regressor_constant_nonzero)
      with ok show False by simp
    qed
    from zero [OF one] zero [OF two]
    have same: "risk_free_rate_monthly r1 = risk_free_rate_monthly r2" by simp
    from regressor_same_rate [OF same, of df] one two
    have "beta2 = beta1" "alpha2 = alpha1" by simp_all
    then show ?thesis using same by simp
  qed
  with X_shift [of r2 df r1] y_shift [of r2 df r1] show ?thesis by blast
qed


lemma example_regressor_one_percent:
  "regressor one_percent_monthly
     [(2, 2, 1), (3, - (50 / 51), - (50 / 101)), (4, 400 / 101, 100 / 67)] =
     Inr (2542531879 / 1072329927, 52431755459 / 36101774209,
          Finite (1440068691408169 / 1479869378330044))"
  by (simp add: regressor_def model_def X_def y_def
        Market_Return_def Stock_Return_def rfm_one_percent add_constant_def ptp_def
        OLS_fit_def coefficients_def getitem_def pinv_const_x_def dot_def centred_def mean_def
        rsquared_of_def ssr_def centered_tss_def power2_eq_square Let_def)

theorem risk_free_shift_witness:
  "regressor 0 (returns_df (Return stock_prices) (Return market_prices)) =
     Inr (2542531879 / 1072329927, 8804869225 / 108305322627,
          Finite (1440068691408169 / 1479869378330044)) \<and>
   regressor one_percent_monthly (returns_df (Return stock_prices) (Return market_prices)) =
     Inr (2542531879 / 1072329927, 52431755459 / 36101774209,
          Finite (1440068691408169 / 1479869378330044)) \<and>
   (52431755459 / 36101774209 :: real) =
     8804869225 / 108305322627
     - (risk_free_rate_monthly one_percent_monthly - risk_free_rate_monthly 0) * 100
       * (1 - 2542531879 / 1072329927)"
proof -
  let ?df = "returns_df (Return stock_prices) (Return market_prices)"
  have one: "regressor 0 ?df =
     Inr (2542531879 / 1072329927, 8804869225 / 108305322627,
          Finite (1440068691408169 / 1479869378330044))"
    by (simp only: example_frame example_regressor)
  have two: "regressor one_percent_monthly ?df =
     Inr (2542531879 / 1072329927, 52431755459 / 36101774209,
          Finite (1440068691408169 / 1479869378330044))"
    by (simp only: example_frame example_regressor_one_percent)
  from risk_free_shift [OF one two]
  have "(52431755459 / 36101774209 :: real) =
     8804869225 / 108305322627
     - (risk_free_rate_monthly one_percent_monthly - risk_free_rate_monthly 0) * 100
       * (1 - 2542531879 / 1072329927)"
    by blast
  with one two show ?thesis by blast
qed


section \<open>A pass with no aligned row\<close>

lemma model_empty:
  "model r [] =
     Inl (ValueError ''zero-size array to reduction operation maximum which has no identity'')"
  by (simp add: model_def X_def y_def Market_Return_def Stock_Return_def add_constant_def OLS_fit_def)

lemma returns_df_empty:
  assumes "\<And>d. d \<in> set (map fst a) \<union> set (map fst b) \<Longrightarrow> cell_at a d = None \<or> cell_at b d = None"
  shows "returns_df a b = []"
proof -
  have "index (returns_df a b) = []"
    unfolding index_returns_df using assms by (auto simp: filter_empty_conv set_index_union)
  then show ?thesis by (simp add: index_def)
qed

lemma short_Return: "length ps < 2 \<Longrightarrow> cell_at (Return ps) d = None"
proof (cases ps rule: pct_change.cases)
  case 1
  then show ?thesis by (simp add: Return_def cell_at_def)
next
  case (2 d' p rest)
  assume "length ps < 2"
  with 2 have "rest = []" by simp
  with 2 show ?thesis by (simp add: Return_def cell_at_def)
qed

lemma no_overlap:
  assumes "set (map fst stock_data) \<inter> set (map fst market_data) = {}
           \<or> length stock_data < 2 \<or> length market_data < 2"
  shows "returns_df (Return stock_data) (Return market_data) = []"
proof (rule returns_df_empty)
  fix d
  assume d: "d \<in> set (map fst (Return stock_data)) \<union> set (map fst (Return market_data))"
  from assms consider
      (disjoint) "set (map fst stock_data) \<inter> set (map fst market_data) = {}"
    | (stock) "length stock_data < 2" | (market) "length market_data < 2"
    by blast
  then show "cell_at (Return stock_data) d = None \<or> cell_at (Return market_data) d = None"
  proof cases
    case disjoint
    with d have "d \<notin> set (map fst (Return stock_data)) \<or> d \<notin> set (map fst (Return market_data))"
      unfolding map_fst_Return by blast
    then show ?thesis by (metis cell_at_absent)
  next
    case stock
    then show ?thesis by (simp add: short_Return)
  next
    case market
    then show ?thesis by (simp add: short_Return)
  qed
qed

text \<open>
  C6. Whenever the two fetched price series share no date, or one of them has fewer
  than two points, the aligned frame has no row, \<^verbatim>\<open>sm.OLS\<close> raises, and the page of that
  pass is the error message and the hint and nothing else: no metric (so no R-squared,
  NaN or other) and no chart is rendered.
\<close>

theorem empty_overlap_error:
  assumes "fetch_data stock_symbol start_date end_date = Inr stock_data"
      and "map_of market_indices selected_index = Some ticker"
      and "fetch_data ticker start_date end_date = Inr market_data"
      and "set (map fst stock_data) \<inter> set (map fst market_data) = {}
           \<or> length stock_data < 2 \<or> length market_data < 2"
  shows "run_pass fetch_data stock_symbol selected_index start_date end_date risk_free_rate =
           [Error [Txt ''An error occurred: '',
                   Txt ''zero-size array to reduction operation maximum which has no identity''],
            Write [Txt ''Please check if the stock symbol is valid and try again.'']]"
  using assms(1-3) no_overlap [OF assms(4)]
  by (simp add: run_pass_def try_body_def model_empty)

theorem empty_overlap_error_witness:
  "run_pass disjoint_provider ''AAPL'' ''S&P 500'' 1 14 6 =
     [Error [Txt ''An error occurred: '',
             Txt ''zero-size array to reduction operation maximum which has no identity''],
      Write [Txt ''Please check if the stock symbol is valid and try again.'']] \<and>
   run_pass example_provider ''ZZZZ'' ''S&P 500'' 1 14 6 =
     [Error [Txt ''An error occurred: '',
             Txt ''zero-size array to reduction operation maximum which has no identity''],
      Write [Txt ''Please check if the stock symbol is valid and try again.'']]"
proof -
  have m: "map_of market_indices ''S&P 500'' = Some ''^GSPC''"
    by (simp add: market_indices_def)
  have a: "disjoint_provider ''AAPL'' 1 14 = Inr stock_prices"
          "disjoint_provider ''^GSPC'' 1 14 = Inr late_market_prices"
    by (simp_all add: disjoint_provider_def)
  have c: "set (map fst stock_prices) \<inter> set (map fst late_market_prices) = {}
           \<or> length stock_prices < 2 \<or> length late_market_prices < 2"
    by (simp add: stock_prices_def late_market_prices_def)
  have b: "example_provider ''ZZZZ'' 1 14 = Inr []"
          "example_provider ''^GSPC'' 1 14 = Inr market_prices"
    by (simp_all add: example_provider_def)
  have d: "set (map fst ([] :: real series)) \<inter> set (map fst market_prices) = {}
           \<or> length ([] :: real series) < 2 \<or> length market_prices < 2"
    by simp
  from empty_overlap_error [where fetch_data = disjoint_provider and risk_free_rate = 6, OF a(1) m a(2) c]
       empty_overlap_error [where fetch_data = example_provider and risk_free_rate = 6, OF b(1) m b(2) d]
  show ?thesis by blast
qed


section \<open>Where the try block can stop\<close>

lemma stock_fetch_raises:
  "fetch_data stock_symbol start_date end_date = Inl e \<Longrightarrow>
   try_body fetch_data stock_symbol selected_index start_date end_date risk_free_rate = ([], Some e)"
  by (simp add: try_body_def)

lemma market_fetch_raises:
  "fetch_data stock_symbol start_date end_date = Inr stock_data \<Longrightarrow>
   map_of market_indices selected_index = Some ticker \<Longrightarrow>
   fetch_data ticker start_date end_date = Inl e \<Longrightarrow>
   try_body fetch_data stock_symbol selected_index start_date end_date risk_free_rate = ([], Some e)"
  by (simp add: try_body_def)

lemma regression_raises:
  "fetch_data stock_symbol start_date end_date = Inr stock_data \<Longrightarrow>
   map_of market_indices selected_index = Some ticker \<Longrightarrow>
   fetch_data ticker start_date end_date = Inr market_data \<Longrightarrow>
   model risk_free_rate (returns_df (Return stock_data) (Return market_data)) = Inl e \<Longrightarrow>
   try_body fetch_data stock_symbol selected_index start_date end_date risk_free_rate = ([], Some e)"
  by (simp add: try_body_def)

lemma params_raise:
  "fetch_data stock_symbol start_date end_date = Inr stock_data \<Longrightarrow>
   map_of market_indices selected_index = Some ticker \<Longrightarrow>
   fetch_data ticker start_date end_date = Inr market_data \<Longrightarrow>
   model risk_free_rate (returns_df (Return stock_data) (Return market_data)) = Inr m \<Longrightarrow>
   coefficients m = Inl e \<Longrightarrow>
   try_body fetch_data stock_symbol selected_index start_date end_date risk_free_rate =
     ([Subheader (stock_symbol @ '' Statistical Results'')], Some e)"
  by (simp add: try_body_def render_results_def)

lemma render_results_raises:
  "render_results stock_symbol selected_index df m = (page, Some e) \<Longrightarrow>
   page = [Subheader (stock_symbol @ '' Statistical Results'')]"
  by (auto simp: render_results_def Let_def split: sum.splits prod.splits)

lemma try_body_raises:
  assumes "try_body fetch_data stock_symbol selected_index start_date end_date risk_free_rate = (page, Some e)"
  shows "page = [] \<or> page = [Subheader (stock_symbol @ '' Statistical Results'')]"
  using assms render_results_raises
  by (fastforce simp: try_body_def Let_def split: sum.splits option.splits)

lemma try_body_handled:
  assumes "try_body fetch_data stock_symbol selected_index start_date end_date risk_free_rate = (page, Some e)"
  shows "run_pass fetch_data stock_symbol selected_index start_date end_date risk_free_rate =
           page @ [Error [Txt ''An error occurred: '', Txt (str e)],
                   Write [Txt ''Please check if the stock symbol is valid and try again.'']] \<and>
         (page = [] \<or> page = [Subheader (stock_symbol @ '' Statistical Results'')]) \<and>
         (\<forall>el\<in>set (run_pass fetch_data stock_symbol selected_index start_date end_date risk_free_rate).
            \<not> is_metric el \<and> \<not> is_chart el)"
proof -
  have run: "run_pass fetch_data stock_symbol selected_index start_date end_date risk_free_rate =
           page @ [Error [Txt ''An error occurred: '', Txt (str e)],
                   Write [Txt ''Please check if the stock symbol is valid and try again.'']]"
    using assms by (simp add: run_pass_def)
  have page: "page = [] \<or> page = [Subheader (stock_symbol @ '' Statistical Results'')]"
    using assms by (rule try_body_raises)
  then have "\<forall>el\<in>set (page @ [Error [Txt ''An error occurred: '', Txt (str e)],
                   Write [Txt ''Please check if the stock symbol is valid and try again.'']]).
            \<not> is_metric el \<and> \<not> is_chart el"
    by auto
  with run page show ?thesis by simp
qed

lemma index_raises:
  "fetch_data stock_symbol start_date end_date = Inr stock_data \<Longrightarrow>
   map_of market_indices selected_index = None \<Longrightarrow>
   try_body fetch_data stock_symbol selected_index start_date end_date risk_free_rate =
     ([], Some (KeyError selected_index))"
  by (simp add: try_body_def)

text \<open>
  C9. Whenever a stage raises (the stock fetch, the lookup of the index ticker, the
  market fetch, the regression on the transformed returns, or the reading of its
  parameters), the exception reaches the one handler of the script: the page of the
  pass ends with the generic error message and the hint to check the stock symbol, and
  holds no metric and no chart. Before the message there is nothing, or (when reading
  the parameters raised) the bare heading of the results column.
\<close>

theorem error_boundary:
  assumes "fetch_data stock_symbol start_date end_date = Inl e
         \<or> fetch_data stock_symbol start_date end_date = Inr stock_data \<and>
           map_of market_indices selected_index = None \<and> e = KeyError selected_index
         \<or> fetch_data stock_symbol start_date end_date = Inr stock_data \<and>
           map_of market_indices selected_index = Some ticker \<and>
           fetch_data ticker start_date end_date = Inl e
         \<or> fetch_data stock_symbol start_date end_date = Inr stock_data \<and>
           map_of market_indices selected_index = Some ticker \<and>
           fetch_data ticker start_date end_date = Inr market_data \<and>
           model risk_free_rate (returns_df (Return stock_data) (Return market_data)) = Inl e
         \<or> fetch_data stock_symbol start_date end_date = Inr stock_data \<and>
           map_of market_indices selected_index = Some ticker \<and>
           fetch_data ticker start_date end_date = Inr market_data \<and>
           model risk_free_rate (returns_df (Return stock_data) (Return market_data)) = Inr m \<and>
           coefficients m = Inl e"
  shows "\<exists>page.
           try_body fetch_data stock_symbol selected_index start_date end_date risk_free_rate
             = (page, Some e) \<and>
           run_pass fetch_data stock_symbol selected_index start_date end_date risk_free_rate =
             page @ [Error [Txt ''An error occurred: '', Txt (str e)],
                     Write [Txt ''Please check if the stock symbol is valid and try again.'']] \<and>
           (page = [] \<or> page = [Subheader (stock_symbol @ '' Statistical Results'')]) \<and>
           (\<forall>el\<in>set (run_pass fetch_data stock_symbol selected_index start_date end_date risk_free_rate).
              \<not> is_metric el \<and> \<not> is_chart el)"
proof -
  have "\<exists>page. try_body fetch_data stock_symbol selected_index start_date end_date risk_free_rate
                 = (page, Some e)"
    using assms by (elim disjE conjE) (simp_all add: try_body_def render_results_def)
  then obtain page where
    "try_body fetch_data stock_symbol selected_index start_date end_date risk_free_rate = (page, Some e)"
    ..
  from this try_body_handled [OF this] show ?thesis by blast
qed

lemma model_constant_nonzero:
  assumes "X r df \<noteq> []" "\<forall>v\<in>set (X r df). v = hd (X r df)" "hd (X r df) \<noteq> 0"
  shows "\<exists>m. model r df = Inr m \<and> coefficients m = Inl (KeyError ''const'')"
proof -
  have "ptp (X r df) = 0" using assms(1,2) by (simp add: ptp_zero_iff)
  moreover have "\<exists>v\<in>set (X r df). v \<noteq> 0" using assms(1,3) hd_in_set by blast
  ultimately have "add_constant (X r df) = Only_x (X r df)"
    using assms(1) by (simp add: add_constant_def)
  then show ?thesis using assms(1)
    by (simp add: model_def OLS_fit_def coefficients_def getitem_def Let_def)
qed

lemma flat_frame:
  "returns_df (Return stock_prices) (Return [(1, 100), (2, 100), (3, 100), (4, 100)]) =
     [(2, 2, 0), (3, - (50 / 51), 0), (4, 400 / 101, 0)]"
  by (simp add: returns_df_def DataFrame_def index_union_def cell_at_def Return_def
                stock_prices_def)

theorem error_boundary_witness:
  "run_pass flat_market_provider ''AAPL'' ''S&P 500'' 1 4 6 =
     [Subheader ''AAPL Statistical Results'',
      Error [Txt ''An error occurred: '', Txt (str (KeyError ''const''))],
      Write [Txt ''Please check if the stock symbol is valid and try again.'']]"
proof -
  let ?flat = "[(1, 100), (2, 100), (3, 100), (4, 100)] :: real series"
  let ?df = "returns_df (Return stock_prices) (Return ?flat)"
  have a: "flat_market_provider ''AAPL'' 1 4 = Inr stock_prices"
    and b: "flat_market_provider ''^GSPC'' 1 4 = Inr ?flat"
    by (simp_all add: flat_market_provider_def)
  have i: "map_of market_indices ''S&P 500'' = Some ''^GSPC''"
    by (simp add: market_indices_def)
  have pos: "risk_free_rate_monthly 6 \<noteq> 0" using rfm_pos [of 6] by simp
  have x: "X 6 ?df = [- (risk_free_rate_monthly 6 * 100), - (risk_free_rate_monthly 6 * 100),
                      - (risk_free_rate_monthly 6 * 100)]"
    by (simp add: flat_frame X_def Market_Return_def)
  have "X 6 ?df \<noteq> []" "\<forall>v\<in>set (X 6 ?df). v = hd (X 6 ?df)" "hd (X 6 ?df) \<noteq> 0"
    unfolding x using pos by simp_all
  from model_constant_nonzero [OF this]
  obtain m where m: "model 6 ?df = Inr m" "coefficients m = Inl (KeyError ''const'')"
    by blast
  have stage: "flat_market_provider ''AAPL'' 1 4 = Inl (KeyError ''const'')
         \<or> flat_market_provider ''AAPL'' 1 4 = Inr stock_prices \<and>
           map_of market_indices ''S&P 500'' = None \<and> KeyError ''const'' = KeyError ''S&P 500''
         \<or> flat_market_provider ''AAPL'' 1 4 = Inr stock_prices \<and>
           map_of market_indices ''S&P 500'' = Some ''^GSPC'' \<and>
           flat_market_provider ''^GSPC'' 1 4 = Inl (KeyError ''const'')
         \<or> flat_market_provider ''AAPL'' 1 4 = Inr stock_prices \<and>
           map_of market_indices ''S&P 500'' = Some ''^GSPC'' \<and>
           flat_market_provider ''^GSPC'' 1 4 = Inr ?flat \<and>
           model 6 ?df = Inl (KeyError ''const'')
         \<or> flat_market_provider ''AAPL'' 1 4 = Inr stock_prices \<and>
           map_of market_indices ''S&P 500'' = Some ''^GSPC'' \<and>
           flat_market_provider ''^GSPC'' 1 4 = Inr ?flat \<and>
           model 6 ?df = Inr m \<and> coefficients m = Inl (KeyError ''const'')"
    using a b i m by blast
  from error_boundary [where fetch_data = flat_market_provider and stock_symbol = "''AAPL''"
        and selected_index = "''S&P 500''" and start_date = 1 and end_date = 4
        and risk_free_rate = 6 and e = "KeyError ''const''" and stock_data = stock_prices
        and ticker = "''^GSPC''" and market_data = ?flat and m = m, OF stage]
  obtain page where
    t: "try_body flat_market_provider ''AAPL'' ''S&P 500'' 1 4 6 = (page, Some (KeyError ''const''))"
    and r: "run_pass flat_market_provider ''AAPL'' ''S&P 500'' 1 4 6 =
             page @ [Error [Txt ''An error occurred: '', Txt (str (KeyError ''const''))],
                     Write [Txt ''Please check if the stock symbol is valid and try again.'']]"
    by blast
  from params_raise [where fetch_data = flat_market_provider, OF a i b m] t
  have "page = [Subheader (''AAPL'' @ '' Statistical Results'')]" by simp
  with r show ?thesis by simp
qed


section \<open>A pass that succeeds\<close>

lemma regressor_Inr:
  "regressor r df = Inr (beta, alpha, q) \<longleftrightarrow>
     (\<exists>m. model r df = Inr m \<and> coefficients m = Inr (beta, alpha) \<and> rsquared m = q)"
  by (auto simp: regressor_def split: sum.splits)

lemma try_body_renders:
  assumes "fetch_data stock_symbol start_date end_date = Inr stock_data"
      and "map_of market_indices selected_index = Some ticker"
      and "fetch_data ticker start_date end_date = Inr market_data"
      and "regressor risk_free_rate (returns_df (Return stock_data) (Return market_data))
             = Inr (beta, alpha, q)"
  shows "try_body fetch_data stock_symbol selected_index start_date end_date risk_free_rate =
           ([Subheader (stock_symbol @ '' Statistical Results''),
             Metric ''Beta'' (Rounded (Finite beta) 4),
             Metric (''Jensen'' @ [CHR 0x27] @ ''s Alpha'') (Rounded (Finite alpha) 4),
             Metric ''R-squared'' (Rounded q 4),
             Subheader ''Interpretation'',
             Write [Txt ''**Beta ('', Fmt4 beta, Txt ''):** This stock is '',
                    Txt (beta_interpretation beta), Txt '' compared to the '',
                    Txt selected_index],
             Write [Txt ''**Alpha ('', Fmt4 alpha, Txt ''):** This stock is '',
                    Txt (alpha_interpretation alpha),
                    Txt '' the market on a risk-adjusted basis''],
             Subheader ''Visualizations'',
             Plotly_scatter (fig2 stock_symbol selected_index
                               (returns_df (Return stock_data) (Return market_data))),
             Plotly_bars (fig3 stock_symbol selected_index
                            (returns_df (Return stock_data) (Return market_data)))],
            None)"
proof -
  from assms(4) obtain m where
    "model risk_free_rate (returns_df (Return stock_data) (Return market_data)) = Inr m"
    "coefficients m = Inr (beta, alpha)" "rsquared m = q"
    unfolding regressor_Inr by blast
  with assms(1-3) show ?thesis
    by (simp add: try_body_def render_results_def Let_def)
qed

lemma try_body_succeeds:
  assumes "try_body fetch_data stock_symbol selected_index start_date end_date risk_free_rate
             = (page, None)"
      and "fetch_data stock_symbol start_date end_date = Inr stock_data"
      and "map_of market_indices selected_index = Some ticker"
      and "fetch_data ticker start_date end_date = Inr market_data"
  shows "\<exists>beta alpha q.
           regressor risk_free_rate (returns_df (Return stock_data) (Return market_data))
             = Inr (beta, alpha, q)"
  using assms
  by (auto simp: try_body_def render_results_def regressor_def Let_def
           split: sum.splits prod.splits)

lemma scatters_of_pass:
  assumes "try_body fetch_data stock_symbol selected_index start_date end_date risk_free_rate
             = (page, None)"
      and "fetch_data stock_symbol start_date end_date = Inr stock_data"
      and "map_of market_indices selected_index = Some ticker"
      and "fetch_data ticker start_date end_date = Inr market_data"
  shows "run_pass fetch_data stock_symbol selected_index start_date end_date risk_free_rate = page"
    and "scatters page =
           [fig2 stock_symbol selected_index (returns_df (Return stock_data) (Return market_data))]"
    and "returns_df (Return stock_data) (Return market_data) \<noteq> []"
proof -
  show "run_pass fetch_data stock_symbol selected_index start_date end_date risk_free_rate = page"
    using assms(1) by (simp add: run_pass_def)
  from try_body_succeeds [where fetch_data = fetch_data, OF assms] obtain beta alpha q where
    r: "regressor risk_free_rate (returns_df (Return stock_data) (Return market_data))
          = Inr (beta, alpha, q)"
    by blast
  from try_body_renders [where fetch_data = fetch_data, OF assms(2-4) r] assms(1)
  show "scatters page =
           [fig2 stock_symbol selected_index (returns_df (Return stock_data) (Return market_data))]"
    by auto
  from r show "returns_df (Return stock_data) (Return market_data) \<noteq> []"
    by (auto simp: regressor_empty)
qed

lemma excess_differs:
  assumes "df \<noteq> []" "risk_free_rate_monthly r \<noteq> 0"
  shows "Market_Return df \<noteq> X r df" "Stock_Return df \<noteq> y r df"
proof -
  have m: "Market_Return df \<noteq> []" and s: "Stock_Return df \<noteq> []"
    using assms(1) by (simp_all add: Market_Return_def Stock_Return_def)
  have "hd (X r df) = hd (Market_Return df) - risk_free_rate_monthly r * 100"
    using m by (simp add: X_def hd_map)
  then have "hd (X r df) \<noteq> hd (Market_Return df)" using assms(2) by simp
  then show "Market_Return df \<noteq> X r df" by metis
  have "hd (y r df) = hd (Stock_Return df) - risk_free_rate_monthly r * 100"
    using s by (simp add: y_def hd_map)
  then have "hd (y r df) \<noteq> hd (Stock_Return df)" using assms(2) by simp
  then show "Stock_Return df \<noteq> y r df" by metis
qed

text \<open>
  C8 (as amended). The scatter plot of every successful pass is drawn from the aligned
  frame itself: the raw market return on the x-axis, the raw stock return on the
  y-axis, with the \<^verbatim>\<open>ols\<close> trendline option. These are the excess returns of the
  regression exactly when the periodic rate is 0; for any other rate both axes differ
  from the excess columns.
\<close>

theorem scatter_axes:
  assumes "try_body fetch_data stock_symbol selected_index start_date end_date risk_free_rate
             = (page, None)"
      and "fetch_data stock_symbol start_date end_date = Inr stock_data"
      and "map_of market_indices selected_index = Some ticker"
      and "fetch_data ticker start_date end_date = Inr market_data"
  shows "run_pass fetch_data stock_symbol selected_index start_date end_date risk_free_rate = page \<and>
         map sc_x (scatters page) =
           [Market_Return (returns_df (Return stock_data) (Return market_data))] \<and>
         map sc_y (scatters page) =
           [Stock_Return (returns_df (Return stock_data) (Return market_data))] \<and>
         map sc_trendline (scatters page) = [''ols''] \<and>
         (risk_free_rate_monthly risk_free_rate \<noteq> 0 \<longrightarrow>
            map sc_x (scatters page) \<noteq>
              [X risk_free_rate (returns_df (Return stock_data) (Return market_data))] \<and>
            map sc_y (scatters page) \<noteq>
              [y risk_free_rate (returns_df (Return stock_data) (Return market_data))]) \<and>
         (risk_free_rate_monthly risk_free_rate = 0 \<longrightarrow>
            map sc_x (scatters page) =
              [X risk_free_rate (returns_df (Return stock_data) (Return market_data))] \<and>
            map sc_y (scatters page) =
              [y risk_free_rate (returns_df (Return stock_data) (Return market_data))])"
proof -
  note pass = scatters_of_pass [where fetch_data = fetch_data, OF assms]
  have "risk_free_rate_monthly risk_free_rate = 0 \<Longrightarrow>
          X risk_free_rate df = Market_Return df \<and> y risk_free_rate df = Stock_Return df" for df
    by (simp add: X_def y_def)
  with pass excess_differs [OF pass(3)] show ?thesis
    by (auto simp: fig2_def)
qed


lemma example_fetches:
  "example_provider ''AAPL'' 1 4 = Inr stock_prices"
  "map_of market_indices ''S&P 500'' = Some ''^GSPC''"
  "example_provider ''^GSPC'' 1 4 = Inr market_prices"
  by (simp_all add: example_provider_def market_indices_def)

text \<open>
  The worked example at a monthly rate of one percent: the x data of the scatter plot
  are the raw market returns, not the excess market returns the regression used.
\<close>

theorem scatter_axes_counterexample:
  "map sc_x (scatters (run_pass example_provider ''AAPL'' ''S&P 500'' 1 4 one_percent_monthly))
     = [[1, - (50 / 101), 100 / 67]] \<and>
   X one_percent_monthly (returns_df (Return stock_prices) (Return market_prices))
     = [0, - (151 / 101), 33 / 67] \<and>
   map sc_x (scatters (run_pass example_provider ''AAPL'' ''S&P 500'' 1 4 one_percent_monthly))
     \<noteq> [X one_percent_monthly (returns_df (Return stock_prices) (Return market_prices))]"
proof -
  let ?df = "returns_df (Return stock_prices) (Return market_prices)"
  have r: "regressor one_percent_monthly ?df =
     Inr (2542531879 / 1072329927, 52431755459 / 36101774209,
          Finite (1440068691408169 / 1479869378330044))"
    by (simp only: example_frame example_regressor_one_percent)
  note body = try_body_renders [where fetch_data = example_provider, OF example_fetches r]
  have "map sc_x (scatters (run_pass example_provider ''AAPL'' ''S&P 500'' 1 4 one_percent_monthly))
          = [Market_Return ?df]"
    by (simp add: run_pass_def body fig2_def)
  then have a: "map sc_x (scatters (run_pass example_provider ''AAPL'' ''S&P 500'' 1 4 one_percent_monthly))
     = [[1, - (50 / 101), 100 / 67]]"
    by (simp add: example_frame Market_Return_def)
  have b: "X one_percent_monthly ?df = [0, - (151 / 101), 33 / 67]"
    by (simp add: example_frame X_def Market_Return_def rfm_one_percent)
  from a b show ?thesis by simp
qed

theorem scatter_axes_witness:
  "map sc_x (scatters (run_pass example_provider ''AAPL'' ''S&P 500'' 1 4 0))
     = [[1, - (50 / 101), 100 / 67]] \<and>
   map sc_y (scatters (run_pass example_provider ''AAPL'' ''S&P 500'' 1 4 0))
     = [[2, - (50 / 51), 400 / 101]] \<and>
   map sc_trendline (scatters (run_pass example_provider ''AAPL'' ''S&P 500'' 1 4 0)) = [''ols'']"
proof -
  let ?df = "returns_df (Return stock_prices) (Return market_prices)"
  have r: "regressor 0 ?df =
     Inr (2542531879 / 1072329927, 8804869225 / 108305322627,
          Finite (1440068691408169 / 1479869378330044))"
    by (simp only: example_frame example_regressor)
  note body = try_body_renders [where fetch_data = example_provider, OF example_fetches r]
  note axes = scatter_axes [where fetch_data = example_provider, OF body example_fetches]
  have run: "run_pass example_provider ''AAPL'' ''S&P 500'' 1 4 0 =
               fst (try_body example_provider ''AAPL'' ''S&P 500'' 1 4 0)"
    using axes unfolding body by simp
  have "map sc_x (scatters (fst (try_body example_provider ''AAPL'' ''S&P 500'' 1 4 0))) =
          [Market_Return ?df]"
       "map sc_y (scatters (fst (try_body example_provider ''AAPL'' ''S&P 500'' 1 4 0))) =
          [Stock_Return ?df]"
       "map sc_trendline (scatters (fst (try_body example_provider ''AAPL'' ''S&P 500'' 1 4 0))) =
          [''ols'']"
    using axes unfolding body by simp_all
  then show ?thesis unfolding run
    by (simp add: example_frame Market_Return_def Stock_Return_def)
qed


section \<open>Labels and displayed numbers\<close>

lemma rint_nearest:
  "\<bar>of_int (rint s) - s\<bar> \<le> 1 / 2 \<and> (\<bar>of_int (rint s) - s\<bar> = 1 / 2 \<longrightarrow> even (rint s))"
proof -
  define f where "f = \<lfloor>s\<rfloor>"
  define d where "d = s - of_int f"
  have d: "0 \<le> d" "d < 1" unfolding d_def f_def by linarith+
  have down: "\<bar>of_int f - s\<bar> = d" and up: "\<bar>of_int (f + 1) - s\<bar> = 1 - d"
    using d by (simp_all add: d_def)
  consider (low) "d < 1 / 2" | (high) "d > 1 / 2" | (tie) "d = 1 / 2" by linarith
  then show ?thesis
  proof cases
    case low
    then have r: "rint s = f" by (simp add: rint_def f_def d_def Let_def)
    show ?thesis unfolding r down using low by simp
  next
    case high
    then have r: "rint s = f + 1" by (simp add: rint_def f_def d_def Let_def)
    show ?thesis unfolding r up using high by simp
  next
    case tie
    show ?thesis
    proof (cases "even f")
      case True
      with tie have r: "rint s = f" by (simp add: rint_def f_def d_def Let_def)
      show ?thesis unfolding r down using tie True by simp
    next
      case False
      with tie have r: "rint s = f + 1" by (simp add: rint_def f_def d_def Let_def)
      show ?thesis unfolding r up using tie False by simp
    qed
  qed
qed

lemma rint_unique:
  assumes "\<bar>of_int k - s\<bar> < 1 / 2"
  shows "rint s = k"
proof -
  have "\<bar>of_int (rint s) - s\<bar> \<le> 1 / 2" using rint_nearest by blast
  with assms have "\<bar>(of_int (rint s) :: real) - of_int k\<bar> < 1" by linarith
  then have "\<bar>of_int (rint s - k) :: real\<bar> < 1" by simp
  then have "\<bar>rint s - k\<bar> < 1" by linarith
  then show ?thesis by simp
qed

text \<open>
  A product that float64 rounds onto the tie 1/2 is displayed as zero (so the float
  nearest to 0.00005, which lies just above it, shows as 0.0).
\<close>

lemma py_round_tie:
  assumes "fl (v * 10 ^ 4) = 1 / 2"
  shows "py_round fl v 4 = fl 0"
proof -
  have "rint (1 / 2) = 0" by (simp add: rint_def)
  then show ?thesis unfolding py_round_def assms by simp
qed

lemma run_pass_renders:
  assumes "fetch_data stock_symbol start_date end_date = Inr stock_data"
      and "map_of market_indices selected_index = Some ticker"
      and "fetch_data ticker start_date end_date = Inr market_data"
      and "model risk_free_rate (returns_df (Return stock_data) (Return market_data)) = Inr m"
      and "coefficients m = Inr (beta, alpha)"
  shows "run_pass fetch_data stock_symbol selected_index start_date end_date risk_free_rate =
           fst (render_results stock_symbol selected_index
                  (returns_df (Return stock_data) (Return market_data)) m)"
  using assms by (simp add: run_pass_def try_body_def render_results_def Let_def)

text \<open>
  C10. Whatever regression result reaches the rendering (lines 74-146), with Beta and
  Alpha as its parameters: the three metrics are given \<^verbatim>\<open>round(., 4)\<close> of Beta, Alpha and R-squared, while both
  interpretation sentences take their label from Beta and Alpha as they are. The
  rounded value is the float of k / 10^n for the integer k nearest to the float of
  v * 10^n (a tie going to the even k). So a Beta of 1.00001 is displayed as 1.0 with
  the Aggressive label, although the displayed value itself would be labelled Neutral.
\<close>

theorem labels_from_unrounded:
  assumes "coefficients m = Inr (beta, alpha)"
  shows "render_results stock_symbol selected_index df m =
           ([Subheader (stock_symbol @ '' Statistical Results''),
             Metric ''Beta'' (Rounded (Finite beta) 4),
             Metric (''Jensen'' @ [CHR 0x27] @ ''s Alpha'') (Rounded (Finite alpha) 4),
             Metric ''R-squared'' (Rounded (rsquared m) 4),
             Subheader ''Interpretation'',
             Write [Txt ''**Beta ('', Fmt4 beta, Txt ''):** This stock is '',
                    Txt (beta_interpretation beta), Txt '' compared to the '',
                    Txt selected_index],
             Write [Txt ''**Alpha ('', Fmt4 alpha, Txt ''):** This stock is '',
                    Txt (alpha_interpretation alpha),
                    Txt '' the market on a risk-adjusted basis''],
             Subheader ''Visualizations'',
             Plotly_scatter (fig2 stock_symbol selected_index df),
             Plotly_bars (fig3 stock_symbol selected_index df)],
            None) \<and>
         (\<exists>k. displayed fl (Rounded (Finite v) n) = Finite (fl (of_int k / 10 ^ n)) \<and>
              \<bar>of_int k - fl (v * 10 ^ n)\<bar> \<le> 1 / 2 \<and>
              (\<bar>of_int k - fl (v * 10 ^ n)\<bar> = 1 / 2 \<longrightarrow> even k)) \<and>
         displayed fl (Rounded Not_finite n) = Not_finite \<and>
         (fl 1 = 1 \<and> \<bar>fl (100001 / 100000 * 10 ^ 4) - 100001 / 10\<bar> < 2 / 5 \<longrightarrow>
            displayed fl (Rounded (Finite (100001 / 100000)) 4) = Finite 1) \<and>
         beta_interpretation (100001 / 100000) = fire @ '' **Aggressive**'' \<and>
         beta_interpretation 1 = right_arrow @ '' **Neutral**''"
proof -
  have page: "render_results stock_symbol selected_index df m =
           ([Subheader (stock_symbol @ '' Statistical Results''),
             Metric ''Beta'' (Rounded (Finite beta) 4),
             Metric (''Jensen'' @ [CHR 0x27] @ ''s Alpha'') (Rounded (Finite alpha) 4),
             Metric ''R-squared'' (Rounded (rsquared m) 4),
             Subheader ''Interpretation'',
             Write [Txt ''**Beta ('', Fmt4 beta, Txt ''):** This stock is '',
                    Txt (beta_interpretation beta), Txt '' compared to the '',
                    Txt selected_index],
             Write [Txt ''**Alpha ('', Fmt4 alpha, Txt ''):** This stock is '',
                    Txt (alpha_interpretation alpha),
                    Txt '' the market on a risk-adjusted basis''],
             Subheader ''Visualizations'',
             Plotly_scatter (fig2 stock_symbol selected_index df),
             Plotly_bars (fig3 stock_symbol selected_index df)],
            None)"
    using assms by (simp add: render_results_def)
  have nearest: "\<exists>k. displayed fl (Rounded (Finite v) n) = Finite (fl (of_int k / 10 ^ n)) \<and>
              \<bar>of_int k - fl (v * 10 ^ n)\<bar> \<le> 1 / 2 \<and>
              (\<bar>of_int k - fl (v * 10 ^ n)\<bar> = 1 / 2 \<longrightarrow> even k)"
    using rint_nearest [of "fl (v * 10 ^ n)"]
    by (intro exI [of _ "rint (fl (v * 10 ^ n))"]) (simp add: py_round_def)
  have one: "displayed fl (Rounded (Finite (100001 / 100000)) 4) = Finite 1"
    if "fl 1 = 1 \<and> \<bar>fl (100001 / 100000 * 10 ^ 4) - 100001 / 10\<bar> < 2 / 5"
  proof -
    have near: "\<bar>of_int 10000 - x\<bar> < 1 / 2" if "\<bar>x - 100001 / 10\<bar> < 2 / 5" for x :: real
    proof -
      from that have "\<bar>10000 - x\<bar> < 1 / 2" by linarith
      then show ?thesis by simp
    qed
    have "(100001 / 100000 * 10 ^ 4 :: real) = 100001 / 10" by simp
    with that have "\<bar>fl (100001 / 100000 * 10 ^ 4) - 100001 / 10\<bar> < 2 / 5" by simp
    then have "\<bar>of_int 10000 - fl (100001 / 100000 * 10 ^ 4)\<bar> < 1 / 2" by (rule near)
    then have "rint (fl (100001 / 100000 * 10 ^ 4)) = 10000" by (rule rint_unique)
    then show ?thesis using that by (simp add: py_round_def)
  qed
  have labels: "beta_interpretation (100001 / 100000) = fire @ '' **Aggressive**''"
    "beta_interpretation 1 = right_arrow @ '' **Neutral**''"
    by (simp_all add: beta_interpretation_def)
  have "displayed fl (Rounded Not_finite n) = Not_finite" by simp
  with page nearest one labels show ?thesis by blast
qed

lemma near_one_frame:
  "returns_df (Return [(1, 100), (2, 201 / 2), (3, 10200751005 / 100000000)])
              (Return [(1, 100), (2, 100), (3, 101)]) =
     [(2, 1 / 2, 0), (3, 150001 / 100000, 1)]"
  by (simp add: returns_df_def DataFrame_def index_union_def cell_at_def Return_def)

lemma near_one_model:
  "model 0 [(2, 1 / 2, 0), (3, 150001 / 100000, 1)] =
     Inr \<lparr>params = [(''const'', 1 / 2), (''Market_Return'', 100001 / 100000)],
          rsquared = Finite 1\<rparr>"
  by (simp add: model_def X_def y_def
        Market_Return_def Stock_Return_def rfm_zero add_constant_def ptp_def
        OLS_fit_def pinv_const_x_def dot_def centred_def mean_def
        rsquared_of_def ssr_def centered_tss_def power2_eq_square Let_def)

theorem labels_from_unrounded_witness:
  "run_pass near_one_provider ''AAPL'' ''S&P 500'' 1 3 0 ! 1 =
     Metric ''Beta'' (Rounded (Finite (100001 / 100000)) 4) \<and>
   displayed id (Rounded (Finite (100001 / 100000)) 4) = Finite 1 \<and>
   run_pass near_one_provider ''AAPL'' ''S&P 500'' 1 3 0 ! 5 =
     Write [Txt ''**Beta ('', Fmt4 (100001 / 100000), Txt ''):** This stock is '',
            Txt (fire @ '' **Aggressive**''), Txt '' compared to the '', Txt ''S&P 500''] \<and>
   run_pass near_one_provider ''AAPL'' ''S&P 500'' 1 3 0 ! 2 =
     Metric (''Jensen'' @ [CHR 0x27] @ ''s Alpha'') (Rounded (Finite (1 / 2)) 4) \<and>
   run_pass near_one_provider ''AAPL'' ''S&P 500'' 1 3 0 ! 6 =
     Write [Txt ''**Alpha ('', Fmt4 (1 / 2), Txt ''):** This stock is '',
            Txt (chart_up @ '' **Outperforming**''),
            Txt '' the market on a risk-adjusted basis'']"
proof -
  let ?stock = "[(1, 100), (2, 201 / 2), (3, 10200751005 / 100000000)] :: real series"
  let ?market = "[(1, 100), (2, 100), (3, 101)] :: real series"
  let ?m = "\<lparr>params = [(''const'', 1 / 2), (''Market_Return'', 100001 / 100000)],
            rsquared = Finite 1\<rparr>"
  have f: "near_one_provider ''AAPL'' 1 3 = Inr ?stock"
          "map_of market_indices ''S&P 500'' = Some ''^GSPC''"
          "near_one_provider ''^GSPC'' 1 3 = Inr ?market"
    by (simp_all add: near_one_provider_def market_indices_def)
  have m: "model 0 (returns_df (Return ?stock) (Return ?market)) = Inr ?m"
    by (simp only: near_one_frame near_one_model)
  have c: "coefficients ?m = Inr (100001 / 100000, 1 / 2)"
    by (simp add: coefficients_def getitem_def)
  note th = labels_from_unrounded [where fl = id
      and stock_symbol = "''AAPL''" and selected_index = "''S&P 500''"
      and df = "returns_df (Return ?stock) (Return ?market)", OF c]
  have exact: "id (1::real) = 1 \<and> \<bar>id (100001 / 100000 * 10 ^ 4) - 100001 / 10 :: real\<bar> < 2 / 5"
    by simp
  from th exact have shown: "displayed id (Rounded (Finite (100001 / 100000)) 4) = Finite 1"
    by blast
  have run: "run_pass near_one_provider ''AAPL'' ''S&P 500'' 1 3 0 =
      fst (render_results ''AAPL'' ''S&P 500'' (returns_df (Return ?stock) (Return ?market)) ?m)"
    using run_pass_renders [where fetch_data = near_one_provider, OF f m c] .
  from th have page: "render_results ''AAPL'' ''S&P 500'' (returns_df (Return ?stock) (Return ?market)) ?m =
           ([Subheader (''AAPL'' @ '' Statistical Results''),
             Metric ''Beta'' (Rounded (Finite (100001 / 100000)) 4),
             Metric (''Jensen'' @ [CHR 0x27] @ ''s Alpha'') (Rounded (Finite (1 / 2)) 4),
             Metric ''R-squared'' (Rounded (rsquared ?m) 4),
             Subheader ''Interpretation'',
             Write [Txt ''**Beta ('', Fmt4 (100001 / 100000), Txt ''):** This stock is '',
                    Txt (beta_interpretation (100001 / 100000)), Txt '' compared to the '',
                    Txt ''S&P 500''],
             Write [Txt ''**Alpha ('', Fmt4 (1 / 2), Txt ''):** This stock is '',
                    Txt (alpha_interpretation (1 / 2)),
                    Txt '' the market on a risk-adjusted basis''],
             Subheader ''Visualizations'',
             Plotly_scatter (fig2 ''AAPL'' ''S&P 500'' (returns_df (Return ?stock) (Return ?market))),
             Plotly_bars (fig3 ''AAPL'' ''S&P 500'' (returns_df (Return ?stock) (Return ?market)))],
            None)"
    by blast
  from th have label: "beta_interpretation (100001 / 100000) = fire @ '' **Aggressive**''"
    by blast
  have alpha: "alpha_interpretation (1 / 2) = chart_up @ '' **Outperforming**''"
    by (simp add: alpha_interpretation_def)
  show ?thesis unfolding run page shown label alpha by simp
qed

end
